theory Spec2Isabelle
  imports Main "HOL-Library.Word"
begin

text \<open>
  A model of the dependency fetcher \<^verbatim>\<open>scripts/download/tools.ts\<close> and of the moproxy
  init script, and the properties their specification states of them. The functions are
  translated one by one, under their own names; what they call from Node and from
  \<^verbatim>\<open>../lib/download\<close> is either defined here (strings, the entries of a file system)
  or a parameter. Console output is not part of the model.
\<close>

section \<open>JavaScript strings\<close>

text \<open>
  A JavaScript string is a sequence of UTF-16 code units. The regular expressions of
  \<^verbatim>\<open>tools.ts\<close> carry no \<^verbatim>\<open>u\<close> flag, so they work on code units too.
  \<open>js\<close> turns an ASCII literal into such a string.
\<close>

type_synonym jsstring = "16 word list"

definition js :: "string \<Rightarrow> jsstring" where
  "js s = map of_char s"

text \<open>\<^verbatim>\<open>s.startsWith(p)\<close> and \<^verbatim>\<open>s.includes(sub)\<close>.\<close>

definition startsWith :: "jsstring \<Rightarrow> jsstring \<Rightarrow> bool" where
  "startsWith s p = (take (length p) s = p)"

fun includesStr :: "jsstring \<Rightarrow> jsstring \<Rightarrow> bool" where
  "includesStr [] sub = (sub = [])"
| "includesStr (c # cs) sub = (startsWith (c # cs) sub \<or> includesStr cs sub)"

text \<open>
  The class \<^verbatim>\<open>\s\<close> of ECMAScript: WhiteSpace (TAB, VT, FF, SP, NBSP, ZWNBSP and the
  space separators of Unicode) and LineTerminator (LF, CR, LS, PS).
\<close>

definition isWs :: "16 word \<Rightarrow> bool" where
  "isWs c = (c = 0x09 \<or> c = 0x0A \<or> c = 0x0B \<or> c = 0x0C \<or> c = 0x0D \<or> c = 0x20
           \<or> c = 0xA0 \<or> c = 0x1680 \<or> (0x2000 \<le> c \<and> c \<le> 0x200A)
           \<or> c = 0x2028 \<or> c = 0x2029 \<or> c = 0x202F \<or> c = 0x205F \<or> c = 0x3000
           \<or> c = 0xFEFF)"

definition isLF :: "16 word \<Rightarrow> bool" where
  "isLF c = (c = 0x0A)"

definition isCR :: "16 word \<Rightarrow> bool" where
  "isCR c = (c = 0x0D)"

text \<open>
  \<^verbatim>\<open>String.prototype.split\<close> with a regular expression that never matches the empty
  string walks the string from the left; each match closes the current piece, and the
  rest of the string after the last match is the last piece. The empty string gives one
  empty piece. \<open>pushChar\<close> puts a code unit in front of the current (first) piece.
\<close>

fun pushChar :: "16 word \<Rightarrow> jsstring list \<Rightarrow> jsstring list" where
  "pushChar c [] = [[c]]"
| "pushChar c (l # ls) = (c # l) # ls"

text \<open>\<^verbatim>\<open>s.split(/\r?\n/)\<close>: a CR counts only right before an LF.\<close>

fun splitLines :: "jsstring \<Rightarrow> jsstring list" where
  "splitLines [] = [[]]"
| "splitLines (c # cs) =
     (if isLF c then [] # splitLines cs
      else (case cs of
              [] \<Rightarrow> pushChar c (splitLines cs)
            | d # ds \<Rightarrow> if isCR c \<and> isLF d then [] # splitLines ds
                        else pushChar c (splitLines cs)))"

text \<open>\<^verbatim>\<open>s.split(/\s+/)\<close>: a match takes the whole run of white space.\<close>

function splitWs :: "jsstring \<Rightarrow> jsstring list" where
  "splitWs [] = [[]]"
| "splitWs (c # cs) =
     (if isWs c then [] # splitWs (dropWhile isWs cs)
      else pushChar c (splitWs cs))"
  by pat_completeness auto
termination
  by (relation "measure length") (auto simp: length_dropWhile_le less_Suc_eq_le)

text \<open>
  \<^verbatim>\<open>s.split(sep, limit)\<close> keeps the first \<open>limit\<close> pieces; \<^verbatim>\<open>a[0]\<close> is
  \<^verbatim>\<open>undefined\<close> (here \<open>None\<close>) on an empty array.
\<close>

definition splitWsLimit :: "jsstring \<Rightarrow> nat \<Rightarrow> jsstring list" where
  "splitWsLimit s lim = take lim (splitWs s)"

fun index0 :: "'a list \<Rightarrow> 'a option" where
  "index0 [] = None"
| "index0 (x # xs) = Some x"

text \<open>\<^verbatim>\<open>s.trim()\<close> and \<^verbatim>\<open>s.replace(/^v/, '')\<close>.\<close>

definition trim :: "jsstring \<Rightarrow> jsstring" where
  "trim s = rev (dropWhile isWs (rev (dropWhile isWs s)))"

fun stripLeadingV :: "jsstring \<Rightarrow> jsstring" where
  "stripLeadingV [] = []"
| "stripLeadingV (c # cs) = (if c = 0x76 then cs else c # cs)"

text \<open>A number in a template literal: its decimal digits.\<close>

function showNat :: "nat \<Rightarrow> jsstring" where
  "showNat n = (if n < 10 then [of_nat (48 + n)]
                else showNat (n div 10) @ [of_nat (48 + n mod 10)])"
  by pat_completeness auto
termination
  by (relation "measure id") auto

declare showNat.simps [simp del]

text \<open>An array in a template literal: its elements joined by commas.\<close>

fun joinComma :: "jsstring list \<Rightarrow> jsstring" where
  "joinComma [] = []"
| "joinComma [x] = x"
| "joinComma (x # y # ys) = x @ js '','' @ joinComma (y # ys)"

section \<open>Platforms and the download context\<close>

datatype DependencyPlatform = Dep_wsl | Dep_linux | Dep_darwin | Dep_win32

datatype Platform = P_linux | P_darwin | P_win32

datatype KubePlatform = K_linux | K_darwin | K_windows

fun DependencyPlatform_str :: "DependencyPlatform \<Rightarrow> jsstring" where
  "DependencyPlatform_str Dep_wsl = js ''wsl''"
| "DependencyPlatform_str Dep_linux = js ''linux''"
| "DependencyPlatform_str Dep_darwin = js ''darwin''"
| "DependencyPlatform_str Dep_win32 = js ''win32''"

fun Platform_str :: "Platform \<Rightarrow> jsstring" where
  "Platform_str P_linux = js ''linux''"
| "Platform_str P_darwin = js ''darwin''"
| "Platform_str P_win32 = js ''win32''"

fun KubePlatform_str :: "KubePlatform \<Rightarrow> jsstring" where
  "KubePlatform_str K_linux = js ''linux''"
| "KubePlatform_str K_darwin = js ''darwin''"
| "KubePlatform_str K_windows = js ''windows''"

record DownloadContext =
  dependencyPlaform :: DependencyPlatform
  platform :: Platform
  kubePlatform :: KubePlatform
  binDir :: jsstring
  internalDir :: jsstring

fun getKubePlatform :: "Platform \<Rightarrow> KubePlatform" where
  "getKubePlatform P_darwin = K_darwin"
| "getKubePlatform P_linux = K_linux"
| "getKubePlatform P_win32 = K_windows"

definition exeName :: "DownloadContext \<Rightarrow> jsstring \<Rightarrow> jsstring" where
  "exeName context name =
     (let onWindows = startsWith (Platform_str (platform context)) (js ''win'')
      in name @ (if onWindows then js ''.exe'' else js ''''))"

section \<open>Errors, the file system, and programs with effects\<close>

text \<open>
  A thrown \<^verbatim>\<open>Error\<close> carries its message; an error of the runtime carries its code
  (\<^verbatim>\<open>ENOENT\<close>, \<^verbatim>\<open>EEXIST\<close>, ...).
\<close>

datatype error = Error jsstring | SystemError jsstring

text \<open>
  The file system keeps one entry for each path: a regular file, a directory, or a
  symbolic link with the target it was given. \<^verbatim>\<open>lstat\<close>, \<^verbatim>\<open>readlink\<close>,
  \<^verbatim>\<open>rm\<close> and \<^verbatim>\<open>symlink\<close> work on the entry itself and are defined here; the parent
  directory of a path is taken to exist and to be writable.
\<close>

datatype node = File | Dir | Symlink jsstring

type_synonym fs = "jsstring \<rightharpoonup> node"

record DownloadOptions =
  expectedChecksum :: "jsstring option"
  checksumAlgorithm :: "jsstring option"
  entryName :: "jsstring option"
  access :: "nat option"

definition noOptions :: DownloadOptions where
  "noOptions = \<lparr>expectedChecksum = None, checksumAlgorithm = None, entryName = None,
                 access = None\<rparr>"

text \<open>
  The state of a run: the file system, and the calls made to the download library so
  far, in order (what was asked of the network, and with which options).
\<close>

datatype libcall =
    GetResource jsstring
  | Download jsstring jsstring DownloadOptions
  | DownloadZip jsstring jsstring DownloadOptions
  | DownloadTarGZ jsstring jsstring DownloadOptions

record world =
  files :: fs
  calls :: "libcall list"

text \<open>
  An \<^verbatim>\<open>async\<close> function is a program on the state that ends with a value or with a
  thrown error (\<open>Inl\<close>); the state it has reached is kept in both cases.
\<close>

type_synonym 'a prog = "world \<Rightarrow> (error + 'a) \<times> world"

definition ret :: "'a \<Rightarrow> 'a prog" where
  "ret x w = (Inr x, w)"

definition throw :: "error \<Rightarrow> 'a prog" where
  "throw e w = (Inl e, w)"

definition andThen :: "'a prog \<Rightarrow> ('a \<Rightarrow> 'b prog) \<Rightarrow> 'b prog" where
  "andThen m f w = (case m w of (Inl e, w') \<Rightarrow> (Inl e, w') | (Inr x, w') \<Rightarrow> f x w')"

definition tryCatch :: "'a prog \<Rightarrow> (error \<Rightarrow> 'a prog) \<Rightarrow> 'a prog" where
  "tryCatch m h w = (case m w of (Inl e, w') \<Rightarrow> h e w' | (Inr x, w') \<Rightarrow> (Inr x, w'))"

definition onFiles :: "(fs \<Rightarrow> (error + 'a) \<times> fs) \<Rightarrow> 'a prog" where
  "onFiles f w = (case f (files w) of (r, fs') \<Rightarrow> (r, w\<lparr>files := fs'\<rparr>))"

definition logCall :: "libcall \<Rightarrow> unit prog" where
  "logCall c w = (Inr (), w\<lparr>calls := calls w @ [c]\<rparr>)"

subsection \<open>The runtime\<close>

text \<open>
  What the code reads from Node: the environment, \<^verbatim>\<open>os.platform()\<close>,
  \<^verbatim>\<open>os.arch()\<close>, \<^verbatim>\<open>os.homedir()\<close>, \<^verbatim>\<open>process.cwd()\<close> and \<^verbatim>\<open>path.join\<close>, and the
  file operations that resolve a path through links and permissions (\<^verbatim>\<open>access\<close>,
  \<^verbatim>\<open>existsSync\<close>, \<^verbatim>\<open>copyFile\<close>, recursive \<^verbatim>\<open>mkdir\<close>) or run another program
  (\<^verbatim>\<open>spawnSync\<close>). These are parameters: the results hold for every runtime.
  \<^verbatim>\<open>os.homedir()\<close> gives a path or throws (when the operating system cannot tell the
  home directory of the user).
\<close>

record host =
  env :: "jsstring \<rightharpoonup> jsstring"
  os_platform :: jsstring
  os_arch :: jsstring
  os_homedir :: "error + jsstring"
  cwd :: jsstring
  path_join :: "jsstring list \<Rightarrow> jsstring"
  fs_access :: "fs \<Rightarrow> jsstring \<Rightarrow> bool"
  fs_existsSync :: "fs \<Rightarrow> jsstring \<Rightarrow> bool"
  fs_copyFile :: "jsstring \<Rightarrow> jsstring \<Rightarrow> fs \<Rightarrow> (error + unit) \<times> fs"
  fs_mkdir :: "jsstring \<Rightarrow> fs \<Rightarrow> (error + unit) \<times> fs"
  spawnSync :: "jsstring \<Rightarrow> jsstring list \<Rightarrow> jsstring \<Rightarrow> fs \<Rightarrow> fs"

text \<open>
  \<^verbatim>\<open>process.env.X\<close>: the value, or \<^verbatim>\<open>undefined\<close> when unset. The code only tests a
  variable for truthiness and uses it after the test; \<^verbatim>\<open>undefined\<close> and the empty
  string are both falsy, so an unset variable reads as the empty string here.
\<close>

definition getenv :: "host \<Rightarrow> string \<Rightarrow> jsstring" where
  "getenv rt k = (case env rt (js k) of None \<Rightarrow> [] | Some v \<Rightarrow> v)"

definition truthy :: "jsstring \<Rightarrow> bool" where
  "truthy s = (s \<noteq> [])"

subsection \<open>File operations on the entry of a path\<close>

definition lstat :: "jsstring \<Rightarrow> node prog" where
  "lstat p = onFiles (\<lambda>fs. case fs p of
       None \<Rightarrow> (Inl (SystemError (js ''ENOENT'')), fs)
     | Some n \<Rightarrow> (Inr n, fs))"

fun isSymbolicLink :: "node \<Rightarrow> bool" where
  "isSymbolicLink (Symlink t) = True"
| "isSymbolicLink File = False"
| "isSymbolicLink Dir = False"

definition readlink :: "jsstring \<Rightarrow> jsstring prog" where
  "readlink p = onFiles (\<lambda>fs. case fs p of
       None \<Rightarrow> (Inl (SystemError (js ''ENOENT'')), fs)
     | Some (Symlink t) \<Rightarrow> (Inr t, fs)
     | Some File \<Rightarrow> (Inl (SystemError (js ''EINVAL'')), fs)
     | Some Dir \<Rightarrow> (Inl (SystemError (js ''EINVAL'')), fs))"

text \<open>\<^verbatim>\<open>rm\<close> without \<^verbatim>\<open>recursive\<close> and without \<^verbatim>\<open>force\<close>: a missing path and a
  directory are errors.\<close>

definition rm :: "jsstring \<Rightarrow> unit prog" where
  "rm p = onFiles (\<lambda>fs. case fs p of
       None \<Rightarrow> (Inl (SystemError (js ''ENOENT'')), fs)
     | Some Dir \<Rightarrow> (Inl (SystemError (js ''ERR_FS_EISDIR'')), fs)
     | Some File \<Rightarrow> (Inr (), fs(p := None))
     | Some (Symlink t) \<Rightarrow> (Inr (), fs(p := None)))"

definition symlink :: "jsstring \<Rightarrow> jsstring \<Rightarrow> unit prog" where
  "symlink target p = onFiles (\<lambda>fs. case fs p of
       None \<Rightarrow> (Inr (), fs(p \<mapsto> Symlink target))
     | Some n \<Rightarrow> (Inl (SystemError (js ''EEXIST'')), fs))"

definition copyFile :: "host \<Rightarrow> jsstring \<Rightarrow> jsstring \<Rightarrow> unit prog" where
  "copyFile rt src dest = onFiles (fs_copyFile rt src dest)"

definition mkdir :: "host \<Rightarrow> jsstring \<Rightarrow> unit prog" where
  "mkdir rt p = onFiles (fs_mkdir rt p)"

subsection \<open>The download library\<close>

text \<open>
  \<^verbatim>\<open>getResource\<close>, \<^verbatim>\<open>download\<close>, \<^verbatim>\<open>downloadZip\<close> and \<^verbatim>\<open>downloadTarGZ\<close> come from
  \<^verbatim>\<open>../lib/download\<close>, which is not among the sources: they are parameters. A call is
  recorded, then run.
\<close>

record lib =
  lib_getResource :: "jsstring \<Rightarrow> error + jsstring"
  lib_download :: "jsstring \<Rightarrow> jsstring \<Rightarrow> DownloadOptions \<Rightarrow> fs \<Rightarrow> (error + unit) \<times> fs"
  lib_downloadZip :: "jsstring \<Rightarrow> jsstring \<Rightarrow> DownloadOptions \<Rightarrow> fs \<Rightarrow> (error + jsstring) \<times> fs"
  lib_downloadTarGZ :: "jsstring \<Rightarrow> jsstring \<Rightarrow> DownloadOptions \<Rightarrow> fs \<Rightarrow> (error + jsstring) \<times> fs"

definition getResource :: "lib \<Rightarrow> jsstring \<Rightarrow> jsstring prog" where
  "getResource l url =
     andThen (logCall (GetResource url)) (\<lambda>_ w. (lib_getResource l url, w))"

definition download :: "lib \<Rightarrow> jsstring \<Rightarrow> jsstring \<Rightarrow> DownloadOptions \<Rightarrow> unit prog" where
  "download l url dest opts =
     andThen (logCall (Download url dest opts)) (\<lambda>_. onFiles (lib_download l url dest opts))"

definition downloadZip :: "lib \<Rightarrow> jsstring \<Rightarrow> jsstring \<Rightarrow> DownloadOptions \<Rightarrow> jsstring prog" where
  "downloadZip l url dest opts =
     andThen (logCall (DownloadZip url dest opts)) (\<lambda>_. onFiles (lib_downloadZip l url dest opts))"

definition downloadTarGZ :: "lib \<Rightarrow> jsstring \<Rightarrow> jsstring \<Rightarrow> DownloadOptions \<Rightarrow> jsstring prog" where
  "downloadTarGZ l url dest opts =
     andThen (logCall (DownloadTarGZ url dest opts))
       (\<lambda>_. onFiles (lib_downloadTarGZ l url dest opts))"

section \<open>The functions of tools.ts\<close>

definition findHome :: "host \<Rightarrow> bool \<Rightarrow> jsstring prog" where
  "findHome rt onWindows w =
     (let tryAccess = (\<lambda>path. fs_access rt (files w) path)
      in case os_homedir rt of
           Inl e \<Rightarrow> throw e w
         | Inr osHomeDir \<Rightarrow>
             if truthy osHomeDir \<and> tryAccess osHomeDir then ret osHomeDir w
             else if truthy (getenv rt ''HOME'') \<and> tryAccess (getenv rt ''HOME'')
             then ret (getenv rt ''HOME'') w
             else if onWindows \<and> truthy (getenv rt ''USERPROFILE'')
                       \<and> tryAccess (getenv rt ''USERPROFILE'')
             then ret (getenv rt ''USERPROFILE'') w
             else if onWindows \<and> truthy (getenv rt ''HOMEDRIVE'')
                       \<and> truthy (getenv rt ''HOMEPATH'')
                       \<and> tryAccess (path_join rt [getenv rt ''HOMEDRIVE'',
                                                    getenv rt ''HOMEPATH''])
             then ret (path_join rt [getenv rt ''HOMEDRIVE'', getenv rt ''HOMEPATH'']) w
             else throw (Error (js ''Failed to find home directory'')) w)"

definition findChecksum :: "lib \<Rightarrow> jsstring \<Rightarrow> jsstring \<Rightarrow> jsstring option prog" where
  "findChecksum l checksumURL executableName =
     andThen (getResource l checksumURL) (\<lambda>allChecksums.
       let desiredChecksums =
             filter (\<lambda>line. includesStr line executableName) (splitLines allChecksums)
       in if length desiredChecksums < 1
          then throw (Error (js ''Couldn't find a matching SHA for ['' @ executableName @
                             js ''] in ['' @ allChecksums @ js '']''))
          else if length desiredChecksums = 1
          then ret (index0 (splitWsLimit (desiredChecksums ! 0) 1))
          else throw (Error (js ''Matched '' @ showNat (length desiredChecksums) @
                             js '' hits, not exactly 1, for '' @ executableName @
                             js '' in ['' @ allChecksums @ js '']'')))"

definition downloadKuberlr :: "lib \<Rightarrow> host \<Rightarrow> DownloadContext \<Rightarrow> jsstring \<Rightarrow> jsstring prog" where
  "downloadKuberlr l rt context arch =
     (let kuberlrVersion = js ''0.4.2'';
          baseURL = js ''https://github.com/flavio/kuberlr/releases/download/v'' @ kuberlrVersion;
          platformDir = js ''kuberlr_'' @ kuberlrVersion @ js ''_'' @
                        KubePlatform_str (kubePlatform context) @ js ''_'' @ arch;
          archiveName = platformDir @
                        (if startsWith (KubePlatform_str (kubePlatform context)) (js ''win'')
                         then js ''.zip'' else js ''.tar.gz'')
      in andThen (getResource l (baseURL @ js ''/checksums.txt'')) (\<lambda>text.
           let allChecksums = splitLines text;
               checksums = filter (\<lambda>line. includesStr line platformDir) allChecksums
           in case checksums of
                [] \<Rightarrow> throw (Error (js ''Couldn't find a matching SHA for ['' @ platformDir @
                                     js ''] in ['' @ joinComma allChecksums @ js '']''))
              | [c] \<Rightarrow>
                  let options = \<lparr>expectedChecksum = index0 (splitWs c),
                                 checksumAlgorithm = None,
                                 entryName = Some (platformDir @ js ''/'' @
                                                   exeName context (js ''kuberlr'')),
                                 access = None\<rparr>;
                      downloadFunc = (if startsWith (Platform_str (platform context)) (js ''win'')
                                      then downloadZip else downloadTarGZ);
                      binName = exeName context (js ''kuberlr'')
                  in downloadFunc l (baseURL @ js ''/'' @ archiveName)
                       (path_join rt [binDir context, binName]) options
              | _ \<Rightarrow> throw (Error (js ''Matched '' @ showNat (length checksums) @
                                    js '' hits, not exactly 1, for platform '' @
                                    KubePlatform_str (kubePlatform context) @
                                    js '' in ['' @ joinComma allChecksums @ js '']''))))"

text \<open>
  In \<open>bindKubectlToKuberlr\<close> the \<^verbatim>\<open>try\<close> block gives \<open>True\<close> when it has returned
  from the function (the link is already there) and \<open>False\<close> when control goes on to
  \<^verbatim>\<open>symlink\<close>; the \<^verbatim>\<open>catch\<close> swallows every error of the block.
\<close>

definition bindKubectlToKuberlr :: "host \<Rightarrow> jsstring \<Rightarrow> jsstring \<Rightarrow> unit prog" where
  "bindKubectlToKuberlr rt kuberlrPath binKubectlPath =
     (if startsWith (os_platform rt) (js ''win'')
      then copyFile rt kuberlrPath binKubectlPath
      else andThen
        (tryCatch
           (andThen (lstat binKubectlPath) (\<lambda>binKubectlStat.
              andThen
                (if isSymbolicLink binKubectlStat
                 then andThen (readlink binKubectlPath) (\<lambda>actualTarget.
                        ret (actualTarget = js ''kuberlr''))
                 else ret False)
                (\<lambda>returned.
                   if returned then ret True
                   else andThen (rm binKubectlPath) (\<lambda>_. ret False))))
           (\<lambda>_. ret False))
        (\<lambda>returned.
           if returned then ret ()
           else symlink (js ''kuberlr'') binKubectlPath))"

definition downloadKuberlrAndKubectl :: "lib \<Rightarrow> host \<Rightarrow> DownloadContext \<Rightarrow> unit prog" where
  "downloadKuberlrAndKubectl l rt context =
     andThen (downloadKuberlr l rt context (js ''amd64'')) (\<lambda>kuberlrPath.
       let arch = (if truthy (getenv rt ''M1'') then js ''arm64'' else js ''amd64'')
       in andThen
            (bindKubectlToKuberlr rt kuberlrPath
               (path_join rt [binDir context, exeName context (js ''kubectl'')]))
            (\<lambda>_.
               if Platform_str (platform context) = os_platform rt
               then andThen (getResource l (js ''https://dl.k8s.io/release/stable.txt''))
                 (\<lambda>stableTxt.
                    let kubeVersion = trim stableTxt;
                        kubectlURL = js ''https://dl.k8s.io/'' @ kubeVersion @ js ''/bin/'' @
                                     KubePlatform_str (kubePlatform context) @ js ''/'' @ arch @
                                     js ''/'' @ exeName context (js ''kubectl'')
                    in andThen (getResource l (kubectlURL @ js ''.sha256'')) (\<lambda>kubectlSHA.
                         andThen
                           (findHome rt (startsWith (Platform_str (platform context)) (js ''win'')))
                           (\<lambda>homeDir.
                              let kuberlrDir =
                                    path_join rt [homeDir, js ''.kuberlr'',
                                      KubePlatform_str (kubePlatform context) @ js ''-'' @ arch];
                                  managedKubectlPath =
                                    path_join rt [kuberlrDir,
                                      exeName context (js ''kubectl'' @ stripLeadingV kubeVersion)]
                              in download l kubectlURL managedKubectlPath
                                   (noOptions\<lparr>expectedChecksum := Some kubectlSHA\<rparr>))))
               else ret ()))"

definition downloadDockerBuildx :: "lib \<Rightarrow> host \<Rightarrow> DownloadContext \<Rightarrow> unit prog" where
  "downloadDockerBuildx l rt context =
     (let dockerBuildxVersion = js ''v0.8.2'';
          arch = (if truthy (getenv rt ''M1'') then js ''arm64'' else js ''amd64'');
          dockerBuildxURLBase =
            js ''https://github.com/docker/buildx/releases/download/'' @ dockerBuildxVersion;
          dockerBuildxExecutable =
            exeName context (js ''buildx-'' @ dockerBuildxVersion @ js ''.'' @
                             KubePlatform_str (kubePlatform context) @ js ''-'' @ arch);
          dockerBuildxURL = dockerBuildxURLBase @ js ''/'' @ dockerBuildxExecutable;
          dockerBuildxPath = path_join rt [binDir context, exeName context (js ''docker-buildx'')];
          options = noOptions
      in andThen
           (if KubePlatform_str (kubePlatform context) \<noteq> js ''darwin''
            then andThen
                   (findChecksum l (dockerBuildxURLBase @ js ''/checksums.txt'')
                      dockerBuildxExecutable)
                   (\<lambda>sha. ret (options\<lparr>expectedChecksum := sha\<rparr>))
            else ret options)
           (\<lambda>options. download l dockerBuildxURL dockerBuildxPath options))"

text \<open>\<^verbatim>\<open>download(sourceUrl, destPath)\<close> passes no options: none of them is set.\<close>

definition downloadECRCredHelper :: "lib \<Rightarrow> host \<Rightarrow> DownloadContext \<Rightarrow> jsstring \<Rightarrow> unit prog" where
  "downloadECRCredHelper l rt context version =
     (let arch = (if truthy (getenv rt ''M1'') then js ''arm64'' else js ''amd64'');
          ecrLoginPlatform = (if startsWith (Platform_str (platform context)) (js ''win'')
                              then js ''windows'' else Platform_str (platform context));
          baseName = js ''docker-credential-ecr-login'';
          baseUrl = js ''https://amazon-ecr-credential-helper-releases.s3.us-east-2.amazonaws.com'';
          binName = (if startsWith (Platform_str (platform context)) (js ''win'')
                     then baseName @ js ''.exe'' else baseName);
          sourceUrl = baseUrl @ js ''/'' @ version @ js ''/'' @ ecrLoginPlatform @ js ''-'' @
                      arch @ js ''/'' @ binName;
          destPath = path_join rt [binDir context, binName]
      in download l sourceUrl destPath noOptions)"

text \<open>\<^verbatim>\<open>fs.constants.W_OK\<close> is 2. \<^verbatim>\<open>rmSync\<close> without \<^verbatim>\<open>recursive\<close> and
  \<^verbatim>\<open>force\<close> removes as \<open>rm\<close> does.\<close>

definition W_OK :: nat where
  "W_OK = 2"

definition downloadRancherDashboard :: "lib \<Rightarrow> host \<Rightarrow> unit prog" where
  "downloadRancherDashboard l rt =
     (let rancherDashboardVersion = js ''desktop-v2.6.3.beta.12'';
          rancherDashboardURLBase =
            js ''https://github.com/rancher-sandbox/dashboard/releases/download/'' @
            rancherDashboardVersion;
          rancherDashboardExecutable = js ''rancher-dashboard-desktop-embed'';
          rancherDashboardURL =
            rancherDashboardURLBase @ js ''/'' @ rancherDashboardExecutable @ js ''.tar.gz'';
          resourcesRoot = path_join rt [cwd rt, js ''resources''];
          rancherDashboardPath = path_join rt [resourcesRoot, js ''rancher-dashboard.tgz'']
      in andThen
           (findChecksum l (rancherDashboardURL @ js ''.sha512sum'') rancherDashboardExecutable)
           (\<lambda>rancherDashboardSHA.
              let rancherDashboardDir = path_join rt [resourcesRoot, js ''rancher-dashboard'']
              in (\<lambda>w.
                if fs_existsSync rt (files w) rancherDashboardDir then ret () w
                else andThen
                  (download l rancherDashboardURL rancherDashboardPath
                     \<lparr>expectedChecksum = rancherDashboardSHA,
                      checksumAlgorithm = Some (js ''sha512''),
                      entryName = None,
                      access = Some W_OK\<rparr>)
                  (\<lambda>_. andThen (mkdir rt rancherDashboardDir) (\<lambda>_.
                     let args = [js ''tar'', js ''-xf'', rancherDashboardPath]
                     in andThen
                          (if startsWith (os_platform rt) (js ''win'')
                           then (let systemRoot = getenv rt ''SystemRoot''
                                 in if \<not> truthy systemRoot
                                    then throw (Error (js ''Could not find system root''))
                                    else ret (args[0 := path_join rt [systemRoot,
                                                js ''system32'', js ''tar.exe'']]))
                           else ret args)
                          (\<lambda>args.
                             andThen
                               (onFiles (\<lambda>fs. (Inr (),
                                  spawnSync rt (args ! 0) (drop 1 args) rancherDashboardDir fs)))
                               (\<lambda>_. rm rancherDashboardPath)))) w)))"

section \<open>Names for the statements\<close>

text \<open>The lines of a checksum manifest that match a target name.\<close>

definition matching :: "jsstring \<Rightarrow> jsstring \<Rightarrow> jsstring list" where
  "matching text name = filter (\<lambda>line. includesStr line name) (splitLines text)"

text \<open>The first field of a manifest line: what stands before its first white space.\<close>

definition firstField :: "jsstring \<Rightarrow> jsstring" where
  "firstField line = takeWhile (\<lambda>c. \<not> isWs c) line"

text \<open>The values \<open>downloadKuberlr\<close> computes from the context and the architecture.\<close>

definition kuberlrBaseURL :: jsstring where
  "kuberlrBaseURL = js ''https://github.com/flavio/kuberlr/releases/download/v'' @ js ''0.4.2''"

definition kuberlrChecksumsURL :: jsstring where
  "kuberlrChecksumsURL = kuberlrBaseURL @ js ''/checksums.txt''"

definition kuberlrPlatformDir :: "DownloadContext \<Rightarrow> jsstring \<Rightarrow> jsstring" where
  "kuberlrPlatformDir context arch =
     js ''kuberlr_'' @ js ''0.4.2'' @ js ''_'' @ KubePlatform_str (kubePlatform context) @
     js ''_'' @ arch"

definition kuberlrArchiveURL :: "DownloadContext \<Rightarrow> jsstring \<Rightarrow> jsstring" where
  "kuberlrArchiveURL context arch =
     kuberlrBaseURL @ js ''/'' @ kuberlrPlatformDir context arch @
     (if startsWith (KubePlatform_str (kubePlatform context)) (js ''win'')
      then js ''.zip'' else js ''.tar.gz'')"

definition kuberlrOptions :: "DownloadContext \<Rightarrow> jsstring \<Rightarrow> jsstring \<Rightarrow> DownloadOptions" where
  "kuberlrOptions context arch line =
     \<lparr>expectedChecksum = Some (firstField line),
      checksumAlgorithm = None,
      entryName = Some (kuberlrPlatformDir context arch @ js ''/'' @
                        exeName context (js ''kuberlr'')),
      access = None\<rparr>"

definition kuberlrDownload :: "lib \<Rightarrow> host \<Rightarrow> DownloadContext \<Rightarrow> jsstring \<Rightarrow> jsstring \<Rightarrow> jsstring prog" where
  "kuberlrDownload l rt context arch line =
     (if platform context = P_win32 then downloadZip else downloadTarGZ) l
       (kuberlrArchiveURL context arch)
       (path_join rt [binDir context, exeName context (js ''kuberlr'')])
       (kuberlrOptions context arch line)"

text \<open>The candidates of \<open>findHome\<close> in order, each with whether it is set; the first
  is what \<^verbatim>\<open>os.homedir()\<close> has returned.\<close>

definition homeCandidates :: "host \<Rightarrow> bool \<Rightarrow> jsstring \<Rightarrow> (bool \<times> jsstring) list" where
  "homeCandidates rt onWindows osHomeDir =
     [(truthy osHomeDir, osHomeDir),
      (truthy (getenv rt ''HOME''), getenv rt ''HOME'')] @
     (if onWindows
      then [(truthy (getenv rt ''USERPROFILE''), getenv rt ''USERPROFILE''),
            (truthy (getenv rt ''HOMEDRIVE'') \<and> truthy (getenv rt ''HOMEPATH''),
             path_join rt [getenv rt ''HOMEDRIVE'', getenv rt ''HOMEPATH''])]
      else [])"

definition usable :: "host \<Rightarrow> fs \<Rightarrow> bool \<times> jsstring \<Rightarrow> bool" where
  "usable rt fs c = (fst c \<and> fs_access rt fs (snd c))"

text \<open>The values \<open>downloadDockerBuildx\<close> computes.\<close>

definition buildxChecksumsURL :: jsstring where
  "buildxChecksumsURL =
     js ''https://github.com/docker/buildx/releases/download/'' @ js ''v0.8.2'' @
     js ''/checksums.txt''"

definition buildxExecutable :: "host \<Rightarrow> DownloadContext \<Rightarrow> jsstring" where
  "buildxExecutable rt context =
     exeName context (js ''buildx-'' @ js ''v0.8.2'' @ js ''.'' @
                      KubePlatform_str (kubePlatform context) @ js ''-'' @
                      (if truthy (getenv rt ''M1'') then js ''arm64'' else js ''amd64''))"

definition buildxURL :: "host \<Rightarrow> DownloadContext \<Rightarrow> jsstring" where
  "buildxURL rt context =
     js ''https://github.com/docker/buildx/releases/download/'' @ js ''v0.8.2'' @ js ''/'' @
     buildxExecutable rt context"

definition buildxPath :: "host \<Rightarrow> DownloadContext \<Rightarrow> jsstring" where
  "buildxPath rt context = path_join rt [binDir context, exeName context (js ''docker-buildx'')]"

text \<open>The values \<open>downloadECRCredHelper\<close> computes.\<close>

definition ecrBinName :: "DownloadContext \<Rightarrow> jsstring" where
  "ecrBinName context =
     (if platform context = P_win32 then js ''docker-credential-ecr-login'' @ js ''.exe''
      else js ''docker-credential-ecr-login'')"

definition ecrURL :: "host \<Rightarrow> DownloadContext \<Rightarrow> jsstring \<Rightarrow> jsstring" where
  "ecrURL rt context version =
     js ''https://amazon-ecr-credential-helper-releases.s3.us-east-2.amazonaws.com'' @ js ''/'' @
     version @ js ''/'' @
     (if platform context = P_win32 then js ''windows'' else Platform_str (platform context)) @
     js ''-'' @ (if truthy (getenv rt ''M1'') then js ''arm64'' else js ''amd64'') @ js ''/'' @
     ecrBinName context"

text \<open>The values \<open>downloadRancherDashboard\<close> computes.\<close>

definition dashboardExecutable :: jsstring where
  "dashboardExecutable = js ''rancher-dashboard-desktop-embed''"

definition dashboardChecksumURL :: jsstring where
  "dashboardChecksumURL =
     js ''https://github.com/rancher-sandbox/dashboard/releases/download/'' @
     js ''desktop-v2.6.3.beta.12'' @ js ''/'' @ dashboardExecutable @ js ''.tar.gz'' @
     js ''.sha512sum''"

definition dashboardDir :: "host \<Rightarrow> jsstring" where
  "dashboardDir rt =
     path_join rt [path_join rt [cwd rt, js ''resources''], js ''rancher-dashboard'']"

text \<open>The address of the versioned kubectl that \<open>downloadKuberlrAndKubectl\<close> fetches,
  from the text of \<^verbatim>\<open>stable.txt\<close>.\<close>

definition kubectlURL :: "host \<Rightarrow> DownloadContext \<Rightarrow> jsstring \<Rightarrow> jsstring" where
  "kubectlURL rt context stableTxt =
     js ''https://dl.k8s.io/'' @ trim stableTxt @ js ''/bin/'' @
     KubePlatform_str (kubePlatform context) @ js ''/'' @
     (if truthy (getenv rt ''M1'') then js ''arm64'' else js ''amd64'') @
     js ''/'' @ exeName context (js ''kubectl'')"

text \<open>The paths \<open>downloadKuberlrAndKubectl\<close> computes: where kubectl is bound to
  kuberlr, and where the versioned kubectl goes.\<close>

definition kubectlBinPath :: "host \<Rightarrow> DownloadContext \<Rightarrow> jsstring" where
  "kubectlBinPath rt context = path_join rt [binDir context, exeName context (js ''kubectl'')]"

definition managedKubectlPath :: "host \<Rightarrow> DownloadContext \<Rightarrow> jsstring \<Rightarrow> jsstring \<Rightarrow> jsstring" where
  "managedKubectlPath rt context stableTxt homeDir =
     path_join rt
       [path_join rt [homeDir, js ''.kuberlr'',
          KubePlatform_str (kubePlatform context) @ js ''-'' @
          (if truthy (getenv rt ''M1'') then js ''arm64'' else js ''amd64'')],
        exeName context (js ''kubectl'' @ stripLeadingV (trim stableTxt))]"

text \<open>The calls a run has added to the record.\<close>

definition newCalls :: "world \<Rightarrow> (error + 'a) \<times> world \<Rightarrow> libcall list" where
  "newCalls w r = drop (length (calls w)) (calls (snd r))"

text \<open>
  What is to hold of a call of \<open>downloadKuberlrAndKubectl\<close>: an archive download is the
  \<^verbatim>\<open>amd64\<close> build of kuberlr, and a plain download is the kubectl of the version that
  \<^verbatim>\<open>stable.txt\<close> names. \<open>emits P m\<close> says that the program \<open>m\<close> only adds calls
  to the record, and that each call it adds satisfies \<open>P\<close>.
\<close>

definition stableURL :: jsstring where
  "stableURL = js ''https://dl.k8s.io/release/stable.txt''"

definition asClaimed :: "lib \<Rightarrow> host \<Rightarrow> DownloadContext \<Rightarrow> libcall \<Rightarrow> bool" where
  "asClaimed l rt ctx c =
     (case c of
        GetResource u \<Rightarrow> True
      | Download u d opts \<Rightarrow>
          (case lib_getResource l stableURL of
             Inl e \<Rightarrow> False
           | Inr stableTxt \<Rightarrow> u = kubectlURL rt ctx stableTxt)
      | DownloadZip u d opts \<Rightarrow>
          u = kuberlrArchiveURL ctx (js ''amd64'') \<and>
          entryName opts = Some (kuberlrPlatformDir ctx (js ''amd64'') @ js ''/'' @
                                 exeName ctx (js ''kuberlr''))
      | DownloadTarGZ u d opts \<Rightarrow>
          u = kuberlrArchiveURL ctx (js ''amd64'') \<and>
          entryName opts = Some (kuberlrPlatformDir ctx (js ''amd64'') @ js ''/'' @
                                 exeName ctx (js ''kuberlr'')))"

definition emits :: "(libcall \<Rightarrow> bool) \<Rightarrow> 'a prog \<Rightarrow> bool" where
  "emits P m = (\<forall>w. \<exists>cs. calls (snd (m w)) = calls w @ cs \<and> list_all P cs)"

section \<open>Sample data\<close>

text \<open>
  A runtime for a Mac with Apple silicon and one for Windows, with a \<^verbatim>\<open>path.join\<close> that
  puts a slash between the parts and file operations that look at the entry of the path
  only; a library whose network answers every request with the same text, and one whose
  network is down.
\<close>

fun joinSlash :: "jsstring list \<Rightarrow> jsstring" where
  "joinSlash [] = js ''.''"
| "joinSlash [x] = x"
| "joinSlash (x # y # ys) = x @ js ''/'' @ joinSlash (y # ys)"

definition entryCopy :: "jsstring \<Rightarrow> jsstring \<Rightarrow> fs \<Rightarrow> (error + unit) \<times> fs" where
  "entryCopy src dest fs =
     (case fs src of
        None \<Rightarrow> (Inl (SystemError (js ''ENOENT'')), fs)
      | Some n \<Rightarrow> (Inr (), fs(dest \<mapsto> n)))"

definition entryMkdir :: "jsstring \<Rightarrow> fs \<Rightarrow> (error + unit) \<times> fs" where
  "entryMkdir p fs = (Inr (), fs(p \<mapsto> Dir))"

definition entryPresent :: "fs \<Rightarrow> jsstring \<Rightarrow> bool" where
  "entryPresent fs p = (fs p \<noteq> None)"

definition mac_host :: host where
  "mac_host =
     \<lparr>env = [js ''M1'' \<mapsto> js ''1'', js ''HOME'' \<mapsto> js ''/Users/me''],
      os_platform = js ''darwin'', os_arch = js ''arm64'',
      os_homedir = Inr (js ''/Users/me''),
      cwd = js ''/work'', path_join = joinSlash,
      fs_access = entryPresent, fs_existsSync = entryPresent,
      fs_copyFile = entryCopy, fs_mkdir = entryMkdir,
      spawnSync = (\<lambda>cmd args dir fs. fs)\<rparr>"

definition windows_host :: host where
  "windows_host =
     \<lparr>env = [js ''USERPROFILE'' \<mapsto> js ''C:/Users/me'', js ''HOME'' \<mapsto> js ''D:/home''],
      os_platform = js ''win32'', os_arch = js ''x64'',
      os_homedir = Inr (js ''C:/Users/me''),
      cwd = js ''C:/work'', path_join = joinSlash,
      fs_access = entryPresent, fs_existsSync = entryPresent,
      fs_copyFile = entryCopy, fs_mkdir = entryMkdir,
      spawnSync = (\<lambda>cmd args dir fs. fs)\<rparr>"

text \<open>A Windows host on which \<^verbatim>\<open>os.homedir()\<close> throws: \<^verbatim>\<open>USERPROFILE\<close> is unset and
  the system does not give the profile directory.\<close>

definition homeless_host :: host where
  "homeless_host =
     \<lparr>env = [js ''HOME'' \<mapsto> js ''D:/home''],
      os_platform = js ''win32'', os_arch = js ''x64'',
      os_homedir = Inl (SystemError (js ''ERR_SYSTEM_ERROR'')),
      cwd = js ''C:/work'', path_join = joinSlash,
      fs_access = entryPresent, fs_existsSync = entryPresent,
      fs_copyFile = entryCopy, fs_mkdir = entryMkdir,
      spawnSync = (\<lambda>cmd args dir fs. fs)\<rparr>"

definition answering_lib :: "jsstring \<Rightarrow> lib" where
  "answering_lib text =
     \<lparr>lib_getResource = (\<lambda>url. Inr text),
      lib_download = (\<lambda>url dest opts fs. (Inr (), fs(dest \<mapsto> File))),
      lib_downloadZip = (\<lambda>url dest opts fs. (Inr dest, fs(dest \<mapsto> File))),
      lib_downloadTarGZ = (\<lambda>url dest opts fs. (Inr dest, fs(dest \<mapsto> File)))\<rparr>"

definition offline_lib :: lib where
  "offline_lib =
     \<lparr>lib_getResource = (\<lambda>url. Inl (SystemError (js ''ENOTFOUND''))),
      lib_download = (\<lambda>url dest opts fs. (Inl (SystemError (js ''ENOTFOUND'')), fs)),
      lib_downloadZip = (\<lambda>url dest opts fs. (Inl (SystemError (js ''ENOTFOUND'')), fs)),
      lib_downloadTarGZ = (\<lambda>url dest opts fs. (Inl (SystemError (js ''ENOTFOUND'')), fs))\<rparr>"

definition world_of :: "fs \<Rightarrow> world" where
  "world_of fs = \<lparr>files = fs, calls = []\<rparr>"

definition linux_context :: DownloadContext where
  "linux_context =
     \<lparr>dependencyPlaform = Dep_linux, platform = P_linux, kubePlatform = K_linux,
      binDir = js ''/work/resources/linux/bin'',
      internalDir = js ''/work/resources/linux/internal''\<rparr>"

definition darwin_context :: DownloadContext where
  "darwin_context =
     \<lparr>dependencyPlaform = Dep_darwin, platform = P_darwin, kubePlatform = K_darwin,
      binDir = js ''/work/resources/darwin/bin'',
      internalDir = js ''/work/resources/darwin/internal''\<rparr>"

definition one_line_manifest :: jsstring where
  "one_line_manifest = js ''abc123  foo-linux-amd64.tar.gz''"

definition two_line_manifest :: jsstring where
  "two_line_manifest =
     js ''abc123  foo-linux-amd64.tar.gz'' @ [0x0A] @ js ''def456  foo-linux-amd64.tar.gz.sig''"

definition kubectl_path :: jsstring where
  "kubectl_path = js ''/work/resources/darwin/bin/kubectl''"

definition kuberlr_path :: jsstring where
  "kuberlr_path = js ''/work/resources/darwin/bin/kuberlr''"

definition dashboard_manifest :: jsstring where
  "dashboard_manifest = js ''0a1b2c  rancher-dashboard-desktop-embed.tar.gz''"

definition dashboard_present :: world where
  "dashboard_present = world_of [dashboardDir mac_host \<mapsto> Dir]"

definition kuberlr_manifest :: jsstring where
  "kuberlr_manifest = js ''f00d  kuberlr_0.4.2_darwin_amd64.tar.gz''"

definition buildx_manifest :: jsstring where
  "buildx_manifest = js ''aa  buildx-v0.8.2.linux-arm64''"

text \<open>A library whose network has the kuberlr manifest, \<^verbatim>\<open>stable.txt\<close> and a checksum
  for every other address.\<close>

definition release_lib :: lib where
  "release_lib =
     \<lparr>lib_getResource = (\<lambda>url.
        if url = kuberlrChecksumsURL then Inr kuberlr_manifest
        else if url = stableURL then Inr (js ''v1.24.3'' @ [0x0A])
        else Inr (js ''5e1f'')),
      lib_download = (\<lambda>url dest opts fs. (Inr (), fs(dest \<mapsto> File))),
      lib_downloadZip = (\<lambda>url dest opts fs. (Inr dest, fs(dest \<mapsto> File))),
      lib_downloadTarGZ = (\<lambda>url dest opts fs. (Inr dest, fs(dest \<mapsto> File)))\<rparr>"

definition home_present :: world where
  "home_present = world_of [js ''/Users/me'' \<mapsto> Dir]"

section \<open>The moproxy init script\<close>

text \<open>
  The script reaches the kernel's packet filter through \<^verbatim>\<open>iptables --table nat\<close> only.
  The state is the \<^verbatim>\<open>nat\<close> table: for each chain, its rules in order. A rule
  specification is the option string the script passes after the chain; the one rule the
  script ever names is built from \<^verbatim>\<open>ports_redirected\<close> and \<^verbatim>\<open>port\<close>.
\<close>

type_synonym rule_spec = string

type_synonym nat_table = "string \<Rightarrow> rule_spec list"

record moproxy_conf =
  ports_redirected :: string
  port :: string

definition redirect_rule :: "moproxy_conf \<Rightarrow> rule_spec" where
  "redirect_rule conf =
     ''--protocol tcp --match multiport --dports '' @ ports_redirected conf @
     '' --jump REDIRECT --to-port '' @ port conf"

datatype iptables_action = check | append | delete

text \<open>
  \<^verbatim>\<open>iptables_cmd\<close> runs one command and gives its exit status and the new table:
  \<^verbatim>\<open>--check\<close> succeeds when the chain holds the rule, \<^verbatim>\<open>--append\<close> adds the rule at
  the end, \<^verbatim>\<open>--delete\<close> removes the first rule that matches and fails when none does.
  The commands are taken to run as \<^verbatim>\<open>iptables\<close> documents them (the service runs as
  root, and both chains are built into the table); \<^verbatim>\<open>&> /dev/null\<close> only discards
  their output.
\<close>

fun iptables_cmd :: "moproxy_conf \<Rightarrow> iptables_action \<Rightarrow> string \<Rightarrow> nat_table \<Rightarrow> nat \<times> nat_table" where
  "iptables_cmd conf check c t = (if redirect_rule conf \<in> set (t c) then 0 else 1, t)"
| "iptables_cmd conf append c t = (0, t(c := t c @ [redirect_rule conf]))"
| "iptables_cmd conf delete c t =
     (if redirect_rule conf \<in> set (t c) then (0, t(c := remove1 (redirect_rule conf) (t c)))
      else (1, t))"

definition add_rule_to_chain :: "moproxy_conf \<Rightarrow> string \<Rightarrow> nat_table \<Rightarrow> nat_table" where
  "add_rule_to_chain conf c t =
     (if fst (iptables_cmd conf check c t) \<noteq> 0
      then snd (iptables_cmd conf append c t)
      else t)"

function remove_rule_from_chain :: "moproxy_conf \<Rightarrow> string \<Rightarrow> nat_table \<Rightarrow> nat_table" where
  "remove_rule_from_chain conf c t =
     (if fst (iptables_cmd conf check c t) = 0
      then remove_rule_from_chain conf c (snd (iptables_cmd conf delete c t))
      else t)"
  by pat_completeness auto
termination
  by (relation "measure (\<lambda>(conf, c, t). length (t c))")
     (auto simp: length_remove1 dest: length_pos_if_in_set split: if_splits)

declare remove_rule_from_chain.simps [simp del]

definition enable :: "moproxy_conf \<Rightarrow> nat_table \<Rightarrow> nat_table" where
  "enable conf t = add_rule_to_chain conf ''PREROUTING'' (add_rule_to_chain conf ''OUTPUT'' t)"

definition disable :: "moproxy_conf \<Rightarrow> nat_table \<Rightarrow> nat_table" where
  "disable conf t =
     remove_rule_from_chain conf ''PREROUTING'' (remove_rule_from_chain conf ''OUTPUT'' t)"

text \<open>The number of copies of the script's rule in a chain.\<close>

definition copies :: "moproxy_conf \<Rightarrow> string \<Rightarrow> nat_table \<Rightarrow> nat" where
  "copies conf c t = count_list (t c) (redirect_rule conf)"

text \<open>Sample data: the script's default settings, an empty table, and a table whose
  \<^verbatim>\<open>OUTPUT\<close> chain already holds the rule twice.\<close>

definition default_conf :: moproxy_conf where
  "default_conf = \<lparr>ports_redirected = ''80,443'', port = ''2080''\<rparr>"

definition empty_table :: nat_table where
  "empty_table = (\<lambda>c. [])"

definition duplicate_table :: nat_table where
  "duplicate_table =
     empty_table(''OUTPUT'' := [redirect_rule default_conf, redirect_rule default_conf])"

section \<open>Properties\<close>

subsection \<open>Executable names\<close>

lemma startsWith_win:
  "startsWith (Platform_str p) (js ''win'') = (p = P_win32)"
  by (cases p) (simp_all add: startsWith_def js_def)

text \<open>
  C8. For every tool name and every download context, \<open>exeName\<close> appends \<^verbatim>\<open>.exe\<close>
  exactly when the platform string of the context starts with \<^verbatim>\<open>win\<close> (which of the
  three platforms only \<^verbatim>\<open>win32\<close> does), and returns the name unchanged otherwise.
\<close>

theorem exeName_suffix:
  "exeName context name =
     (if startsWith (Platform_str (platform context)) (js ''win'')
      then name @ js ''.exe'' else name)
   \<and> (startsWith (Platform_str (platform context)) (js ''win'') = (platform context = P_win32))
   \<and> (exeName context name = name) = (platform context \<noteq> P_win32)"
proof -
  have e: "js '''' = []" and x: "js ''.exe'' \<noteq> []"
    by (simp_all add: js_def)
  show ?thesis
    by (simp add: exeName_def startsWith_win e x)
qed

subsection \<open>Checksum manifests\<close>

lemma pushChar_nonempty: "pushChar c xs \<noteq> []"
  by (cases xs) simp_all

lemma index0_pushChar:
  "index0 (pushChar c xs) = Some (c # (case index0 xs of None \<Rightarrow> [] | Some l \<Rightarrow> l))"
  by (cases xs) simp_all

lemma index0_splitWs: "index0 (splitWs s) = Some (firstField s)"
  by (induction s) (simp_all add: index0_pushChar firstField_def)

lemma index0_take1: "index0 (take (Suc 0) xs) = index0 xs"
  by (cases xs) simp_all

lemma index0_splitWsLimit: "index0 (splitWsLimit s (Suc 0)) = Some (firstField s)"
  by (simp add: splitWsLimit_def index0_take1 index0_splitWs)

lemma getResource_run:
  "getResource l url w = (lib_getResource l url, w\<lparr>calls := calls w @ [GetResource url]\<rparr>)"
  by (simp add: getResource_def andThen_def logCall_def)

lemma findChecksum_fail:
  assumes "lib_getResource l url = Inl e"
  shows "findChecksum l url name w = (Inl e, w\<lparr>calls := calls w @ [GetResource url]\<rparr>)"
  by (simp add: findChecksum_def andThen_def getResource_run assms)

lemma findChecksum_cases:
  assumes "lib_getResource l url = Inr manifest"
  shows "findChecksum l url name w =
     (case matching manifest name of
        [] \<Rightarrow> Inl (Error (js ''Couldn't find a matching SHA for ['' @ name @
                             js ''] in ['' @ manifest @ js '']''))
      | [d] \<Rightarrow> Inr (Some (firstField d))
      | _ \<Rightarrow> Inl (Error (js ''Matched '' @ showNat (length (matching manifest name)) @
                                       js '' hits, not exactly 1, for '' @ name @
                                       js '' in ['' @ manifest @ js '']'')),
      w\<lparr>calls := calls w @ [GetResource url]\<rparr>)"
  by (simp add: findChecksum_def andThen_def getResource_run assms matching_def Let_def
      ret_def throw_def index0_splitWsLimit split: list.splits)

lemma length_one_iff: "(length xs = Suc 0) = (\<exists>x. xs = [x])"
  by (cases xs) auto

lemma findChecksum_succeeds_iff:
  assumes "lib_getResource l url = Inr manifest"
  shows "(\<exists>sha. fst (findChecksum l url name w) = Inr (Some sha)) =
         (length (matching manifest name) = 1)"
  by (auto simp: findChecksum_cases [OF assms] length_one_iff split: list.splits)

lemma findChecksum_errors_iff:
  assumes "lib_getResource l url = Inr manifest"
  shows "(\<exists>msg. findChecksum l url name w =
            (Inl (Error msg), w\<lparr>calls := calls w @ [GetResource url]\<rparr>)) =
         (length (matching manifest name) \<noteq> 1)"
  by (auto simp: findChecksum_cases [OF assms] length_one_iff split: list.splits)

lemma kuberlr_names:
  "js ''https://github.com/flavio/kuberlr/releases/download/v'' @ js ''0.4.2'' @ js ''/checksums.txt''
     = kuberlrChecksumsURL"
  by (simp add: kuberlrChecksumsURL_def kuberlrBaseURL_def)

lemma downloadKuberlr_fail:
  assumes "lib_getResource l kuberlrChecksumsURL = Inl e"
  shows "downloadKuberlr l rt ctx arch w =
     (Inl e, w\<lparr>calls := calls w @ [GetResource kuberlrChecksumsURL]\<rparr>)"
  using assms
  by (simp add: downloadKuberlr_def Let_def andThen_def getResource_run kuberlr_names)

lemma downloadKuberlr_cases:
  assumes "lib_getResource l kuberlrChecksumsURL = Inr manifest"
  shows "downloadKuberlr l rt ctx arch w =
     (case matching manifest (kuberlrPlatformDir ctx arch) of
        [] \<Rightarrow> throw (Error (js ''Couldn't find a matching SHA for ['' @
                             kuberlrPlatformDir ctx arch @
                             js ''] in ['' @ joinComma (splitLines manifest) @ js '']''))
      | [d] \<Rightarrow> kuberlrDownload l rt ctx arch d
      | _ \<Rightarrow> throw (Error (js ''Matched '' @
                   showNat (length (matching manifest (kuberlrPlatformDir ctx arch))) @
                   js '' hits, not exactly 1, for platform '' @
                   KubePlatform_str (kubePlatform ctx) @
                   js '' in ['' @ joinComma (splitLines manifest) @ js '']'')))
       (w\<lparr>calls := calls w @ [GetResource kuberlrChecksumsURL]\<rparr>)"
  using assms
  by (simp add: downloadKuberlr_def Let_def andThen_def getResource_run kuberlr_names
      matching_def kuberlrPlatformDir_def kuberlrDownload_def kuberlrArchiveURL_def
      kuberlrBaseURL_def kuberlrOptions_def index0_splitWs startsWith_win
      split: list.splits)

lemma kuberlrDownload_calls:
  "\<exists>c. calls (snd (kuberlrDownload l rt ctx arch d w)) = calls w @ [c]"
  by (simp add: kuberlrDownload_def downloadZip_def downloadTarGZ_def andThen_def logCall_def
      onFiles_def split: prod.splits)

lemma downloadKuberlr_errors_iff:
  assumes "lib_getResource l kuberlrChecksumsURL = Inr manifest"
  shows "(\<exists>msg. downloadKuberlr l rt ctx arch w =
            (Inl (Error msg), w\<lparr>calls := calls w @ [GetResource kuberlrChecksumsURL]\<rparr>)) =
         (length (matching manifest (kuberlrPlatformDir ctx arch)) \<noteq> 1)"
proof (cases "matching manifest (kuberlrPlatformDir ctx arch)")
  case Nil
  then show ?thesis
    by (simp add: downloadKuberlr_cases [OF assms] throw_def)
next
  case (Cons d ds)
  show ?thesis
  proof (cases ds)
    case Nil
    obtain c where c: "calls (snd (kuberlrDownload l rt ctx arch d
        (w\<lparr>calls := calls w @ [GetResource kuberlrChecksumsURL]\<rparr>))) =
        (calls w @ [GetResource kuberlrChecksumsURL]) @ [c]"
      using kuberlrDownload_calls [of l rt ctx arch d
          "w\<lparr>calls := calls w @ [GetResource kuberlrChecksumsURL]\<rparr>"]
      by auto
    have "downloadKuberlr l rt ctx arch w \<noteq>
            (Inl (Error msg), w\<lparr>calls := calls w @ [GetResource kuberlrChecksumsURL]\<rparr>)" for msg
    proof
      assume "downloadKuberlr l rt ctx arch w =
            (Inl (Error msg), w\<lparr>calls := calls w @ [GetResource kuberlrChecksumsURL]\<rparr>)"
      then have "calls (snd (downloadKuberlr l rt ctx arch w)) =
          calls w @ [GetResource kuberlrChecksumsURL]"
        by simp
      with c show False
        by (simp add: downloadKuberlr_cases [OF assms] Cons Nil)
    qed
    then show ?thesis
      by (simp add: Cons Nil)
  next
    case (Cons d' ds')
    then show ?thesis
      using \<open>matching manifest (kuberlrPlatformDir ctx arch) = d # ds\<close>
      by (simp add: downloadKuberlr_cases [OF assms] throw_def)
  qed
qed

lemma downloadKuberlr_proceeds_iff:
  assumes "lib_getResource l kuberlrChecksumsURL = Inr manifest"
  shows "(\<exists>d. matching manifest (kuberlrPlatformDir ctx arch) = [d] \<and>
              downloadKuberlr l rt ctx arch w =
              kuberlrDownload l rt ctx arch d
                (w\<lparr>calls := calls w @ [GetResource kuberlrChecksumsURL]\<rparr>)) =
         (length (matching manifest (kuberlrPlatformDir ctx arch)) = 1)"
  by (auto simp: downloadKuberlr_cases [OF assms] length_one_iff)

text \<open>
  C1. Given the text of the manifest, checksum resolution succeeds exactly when one line of
  the manifest matches the target name, and throws an \<^verbatim>\<open>Error\<close> (having asked the
  network for the manifest only) exactly when the number of matching lines is not one.
  This holds for \<open>findChecksum\<close> and for the filter written out in
  \<open>downloadKuberlr\<close>, which goes on to its download, with the first field of the one
  matching line as expected checksum, exactly when one line matches.
\<close>

theorem checksum_resolution_exactly_one:
  "(lib_getResource l url = Inr manifest \<longrightarrow>
      (\<exists>sha. fst (findChecksum l url name w) = Inr (Some sha)) =
        (length (matching manifest name) = 1)
    \<and> (\<exists>msg. findChecksum l url name w =
           (Inl (Error msg), w\<lparr>calls := calls w @ [GetResource url]\<rparr>)) =
        (length (matching manifest name) \<noteq> 1))
   \<and> (lib_getResource l kuberlrChecksumsURL = Inr manifest \<longrightarrow>
      (\<exists>d. matching manifest (kuberlrPlatformDir ctx arch) = [d] \<and>
           downloadKuberlr l rt ctx arch w =
           kuberlrDownload l rt ctx arch d
             (w\<lparr>calls := calls w @ [GetResource kuberlrChecksumsURL]\<rparr>)) =
        (length (matching manifest (kuberlrPlatformDir ctx arch)) = 1)
    \<and> (\<exists>msg. downloadKuberlr l rt ctx arch w =
           (Inl (Error msg), w\<lparr>calls := calls w @ [GetResource kuberlrChecksumsURL]\<rparr>)) =
        (length (matching manifest (kuberlrPlatformDir ctx arch)) \<noteq> 1))"
  using findChecksum_succeeds_iff [of l url manifest name w]
    findChecksum_errors_iff [of l url manifest name w]
    downloadKuberlr_proceeds_iff [of l manifest ctx arch rt w]
    downloadKuberlr_errors_iff [of l manifest rt ctx arch w]
  by blast

lemma matching_one_line:
  "matching one_line_manifest (js ''foo-linux-amd64.tar.gz'') = [one_line_manifest]"
  by (simp add: matching_def one_line_manifest_def js_def isLF_def isCR_def startsWith_def)

lemma firstField_one_line: "firstField one_line_manifest = js ''abc123''"
  by (simp add: firstField_def one_line_manifest_def js_def isWs_def)

lemma matching_two_line:
  "length (matching two_line_manifest (js ''foo-linux-amd64.tar.gz'')) = 2"
  by (simp add: matching_def two_line_manifest_def js_def isLF_def isCR_def startsWith_def)

lemma showNat_2: "showNat 2 = js ''2''"
  by (simp add: showNat.simps js_def)

theorem checksum_resolution_exactly_one_witness:
  "lib_getResource (answering_lib one_line_manifest) (js ''u'') = Inr one_line_manifest
   \<and> length (matching one_line_manifest (js ''foo-linux-amd64.tar.gz'')) = 1
   \<and> (\<exists>sha. fst (findChecksum (answering_lib one_line_manifest) (js ''u'')
                  (js ''foo-linux-amd64.tar.gz'') (world_of Map.empty)) = Inr (Some sha))
   \<and> lib_getResource (answering_lib one_line_manifest) kuberlrChecksumsURL = Inr one_line_manifest
   \<and> length (matching one_line_manifest (kuberlrPlatformDir linux_context (js ''amd64''))) \<noteq> 1
   \<and> (\<exists>msg. downloadKuberlr (answering_lib one_line_manifest) mac_host linux_context
                (js ''amd64'') (world_of Map.empty) =
              (Inl (Error msg),
               (world_of Map.empty)\<lparr>calls := calls (world_of Map.empty) @
                                               [GetResource kuberlrChecksumsURL]\<rparr>))"
proof -
  have g: "lib_getResource (answering_lib one_line_manifest) u = Inr one_line_manifest" for u
    by (simp add: answering_lib_def)
  have m: "length (matching one_line_manifest (js ''foo-linux-amd64.tar.gz'')) = 1"
    by (simp add: matching_one_line)
  have k: "length (matching one_line_manifest (kuberlrPlatformDir linux_context (js ''amd64''))) \<noteq> 1"
    by (simp add: matching_def one_line_manifest_def kuberlrPlatformDir_def linux_context_def
        js_def isLF_def isCR_def startsWith_def)
  show ?thesis
    using checksum_resolution_exactly_one [where l = "answering_lib one_line_manifest"
        and url = "js ''u''" and manifest = one_line_manifest
        and name = "js ''foo-linux-amd64.tar.gz''" and w = "world_of Map.empty"
        and ctx = linux_context and arch = "js ''amd64''" and rt = mac_host] g m k
    by simp
qed

lemma showNat_gt1:
  "1 < length xs \<Longrightarrow> (case xs of [] \<Rightarrow> a | [d] \<Rightarrow> b d | _ \<Rightarrow> c) = c"
  by (cases xs; cases "tl xs") auto

text \<open>
  C5. With the manifest \<^verbatim>\<open>abc123  foo-linux-amd64.tar.gz\<close> and the target
  \<^verbatim>\<open>foo-linux-amd64.tar.gz\<close>, \<open>findChecksum\<close> gives \<^verbatim>\<open>abc123\<close>. With two
  matching lines it throws the error whose message starts \<^verbatim>\<open>Matched 2 hits, not exactly 1\<close>;
  with any number of matching lines above one the message names that number.
\<close>

theorem findChecksum_scenario:
  "(lib_getResource l url = Inr (js ''abc123  foo-linux-amd64.tar.gz'') \<longrightarrow>
      fst (findChecksum l url (js ''foo-linux-amd64.tar.gz'') w) = Inr (Some (js ''abc123'')))
   \<and> (lib_getResource l url = Inr manifest \<and> length (matching manifest name) = 2 \<longrightarrow>
        fst (findChecksum l url name w) =
          Inl (Error (js ''Matched '' @ js ''2'' @ js '' hits, not exactly 1, for '' @ name @
                      js '' in ['' @ manifest @ js '']'')))
   \<and> (lib_getResource l url = Inr manifest \<and> 1 < length (matching manifest name) \<longrightarrow>
        fst (findChecksum l url name w) =
          Inl (Error (js ''Matched '' @ showNat (length (matching manifest name)) @
                      js '' hits, not exactly 1, for '' @ name @
                      js '' in ['' @ manifest @ js '']'')))"
proof -
  have a: "fst (findChecksum l url (js ''foo-linux-amd64.tar.gz'') w) = Inr (Some (js ''abc123''))"
    if "lib_getResource l url = Inr (js ''abc123  foo-linux-amd64.tar.gz'')"
    using that matching_one_line firstField_one_line
    by (simp add: findChecksum_cases [of l url one_line_manifest] one_line_manifest_def)
  have c: "fst (findChecksum l url name w) =
          Inl (Error (js ''Matched '' @ showNat (length (matching manifest name)) @
                      js '' hits, not exactly 1, for '' @ name @
                      js '' in ['' @ manifest @ js '']''))"
    if "lib_getResource l url = Inr manifest" "1 < length (matching manifest name)"
    by (simp add: findChecksum_cases [OF that(1)] showNat_gt1 [OF that(2)])
  have b: "fst (findChecksum l url name w) =
          Inl (Error (js ''Matched '' @ js ''2'' @ js '' hits, not exactly 1, for '' @ name @
                      js '' in ['' @ manifest @ js '']''))"
    if "lib_getResource l url = Inr manifest" "length (matching manifest name) = 2"
    using c [OF that(1)] that(2) by (simp add: showNat_2)
  from a b c show ?thesis
    by blast
qed

theorem findChecksum_scenario_witness:
  "lib_getResource (answering_lib one_line_manifest) (js ''u'') =
     Inr (js ''abc123  foo-linux-amd64.tar.gz'')
   \<and> fst (findChecksum (answering_lib one_line_manifest) (js ''u'')
            (js ''foo-linux-amd64.tar.gz'') (world_of Map.empty)) = Inr (Some (js ''abc123''))
   \<and> lib_getResource (answering_lib two_line_manifest) (js ''u'') = Inr two_line_manifest
   \<and> length (matching two_line_manifest (js ''foo-linux-amd64.tar.gz'')) = 2
   \<and> fst (findChecksum (answering_lib two_line_manifest) (js ''u'')
            (js ''foo-linux-amd64.tar.gz'') (world_of Map.empty)) =
       Inl (Error (js ''Matched '' @ js ''2'' @ js '' hits, not exactly 1, for '' @
                   js ''foo-linux-amd64.tar.gz'' @ js '' in ['' @ two_line_manifest @ js '']''))"
proof -
  have g1: "lib_getResource (answering_lib one_line_manifest) (js ''u'') =
      Inr (js ''abc123  foo-linux-amd64.tar.gz'')"
    by (simp add: answering_lib_def one_line_manifest_def)
  have g2: "lib_getResource (answering_lib two_line_manifest) (js ''u'') = Inr two_line_manifest"
    by (simp add: answering_lib_def)
  show ?thesis
    using findChecksum_scenario [where l = "answering_lib one_line_manifest" and url = "js ''u''"
        and w = "world_of Map.empty"]
      findChecksum_scenario [where l = "answering_lib two_line_manifest" and url = "js ''u''"
        and w = "world_of Map.empty" and manifest = two_line_manifest
        and name = "js ''foo-linux-amd64.tar.gz''"]
      g1 g2 matching_two_line
    by simp
qed

subsection \<open>The home directory\<close>

lemma findHome_throws:
  "os_homedir rt = Inl e \<Longrightarrow> findHome rt onWindows w = (Inl e, w)"
  by (simp add: findHome_def throw_def)

lemma findHome_find:
  "os_homedir rt = Inr h \<Longrightarrow>
   findHome rt onWindows w =
     (case find (usable rt (files w)) (homeCandidates rt onWindows h) of
        Some c \<Rightarrow> (Inr (snd c), w)
      | None \<Rightarrow> (Inl (Error (js ''Failed to find home directory'')), w))"
  by (simp add: findHome_def homeCandidates_def usable_def Let_def ret_def throw_def)

lemma findHome_state: "snd (findHome rt onWindows w) = w"
  by (cases "os_homedir rt") (simp_all add: findHome_throws findHome_find split: option.splits)

lemma findHome_calls_irrelevant:
  "fst (findHome rt onWindows (w\<lparr>calls := cs\<rparr>)) = fst (findHome rt onWindows w)"
  by (cases "os_homedir rt") (simp_all add: findHome_throws findHome_find split: option.splits)

lemma find_None_ball: "(find P xs = None) = (\<forall>x \<in> set xs. \<not> P x)"
  by (induction xs) auto

text \<open>
  C7, as the code has it. \<open>findHome\<close> calls \<^verbatim>\<open>os.homedir()\<close> first and outside any
  \<^verbatim>\<open>try\<close>: when that call throws, \<open>findHome\<close> throws its error and tries no other
  candidate. When it returns, \<open>findHome\<close> returns the first candidate, in the order
  \<^verbatim>\<open>os.homedir()\<close>, \<^verbatim>\<open>$HOME\<close>, and only when called for Windows \<^verbatim>\<open>$USERPROFILE\<close>,
  then \<^verbatim>\<open>$HOMEDRIVE\<close> joined with \<^verbatim>\<open>$HOMEPATH\<close>, that is set (not empty) and
  accessible, and throws if and only if no candidate of that list is set and accessible.
  It tries each candidate once and leaves the state as it was.
\<close>

theorem findHome_first_accessible:
  "(\<forall>e. os_homedir rt = Inl e \<longrightarrow> findHome rt onWindows w = (Inl e, w))
   \<and> (\<forall>h. os_homedir rt = Inr h \<longrightarrow>
        findHome rt onWindows w =
          (case find (usable rt (files w)) (homeCandidates rt onWindows h) of
             Some c \<Rightarrow> (Inr (snd c), w)
           | None \<Rightarrow> (Inl (Error (js ''Failed to find home directory'')), w))
      \<and> ((\<exists>e. fst (findHome rt onWindows w) = Inl e) =
           (\<forall>c \<in> set (homeCandidates rt onWindows h). \<not> usable rt (files w) c))
      \<and> (\<not> onWindows \<longrightarrow>
           map snd (homeCandidates rt onWindows h) = [h, getenv rt ''HOME''])
      \<and> (onWindows \<longrightarrow>
           map snd (homeCandidates rt onWindows h) =
             [h, getenv rt ''HOME'', getenv rt ''USERPROFILE'',
              path_join rt [getenv rt ''HOMEDRIVE'', getenv rt ''HOMEPATH'']]))
   \<and> snd (findHome rt onWindows w) = w"
proof -
  have t: "findHome rt onWindows w = (Inl e, w)" if "os_homedir rt = Inl e" for e
    using that by (rule findHome_throws)
  have r: "findHome rt onWindows w =
          (case find (usable rt (files w)) (homeCandidates rt onWindows h) of
             Some c \<Rightarrow> (Inr (snd c), w)
           | None \<Rightarrow> (Inl (Error (js ''Failed to find home directory'')), w))
      \<and> ((\<exists>e. fst (findHome rt onWindows w) = Inl e) =
           (\<forall>c \<in> set (homeCandidates rt onWindows h). \<not> usable rt (files w) c))
      \<and> (\<not> onWindows \<longrightarrow>
           map snd (homeCandidates rt onWindows h) = [h, getenv rt ''HOME''])
      \<and> (onWindows \<longrightarrow>
           map snd (homeCandidates rt onWindows h) =
             [h, getenv rt ''HOME'', getenv rt ''USERPROFILE'',
              path_join rt [getenv rt ''HOMEDRIVE'', getenv rt ''HOMEPATH'']])"
    if h: "os_homedir rt = Inr h" for h
  proof -
    have "(\<exists>e. fst (findHome rt onWindows w) = Inl e) =
        (find (usable rt (files w)) (homeCandidates rt onWindows h) = None)"
      by (simp add: findHome_find [OF h] split: option.splits)
    then show ?thesis
      by (simp add: findHome_find [OF h] find_None_ball homeCandidates_def)
  qed
  from t r findHome_state [of rt onWindows w] show ?thesis
    by blast
qed

theorem findHome_first_accessible_witness:
  "os_homedir mac_host = Inr (js ''/Users/me'')
   \<and> findHome mac_host False (world_of [js ''/Users/me'' \<mapsto> Dir]) =
     (Inr (js ''/Users/me''), world_of [js ''/Users/me'' \<mapsto> Dir])
   \<and> os_homedir windows_host = Inr (js ''C:/Users/me'')
   \<and> findHome windows_host True (world_of [js ''D:/home'' \<mapsto> Dir]) =
     (Inr (js ''D:/home''), world_of [js ''D:/home'' \<mapsto> Dir])
   \<and> (\<exists>e. fst (findHome windows_host True (world_of Map.empty)) = Inl e)
   \<and> os_homedir homeless_host = Inl (SystemError (js ''ERR_SYSTEM_ERROR''))
   \<and> findHome homeless_host True (world_of Map.empty) =
     (Inl (SystemError (js ''ERR_SYSTEM_ERROR'')), world_of Map.empty)"
proof -
  have hm: "os_homedir mac_host = Inr (js ''/Users/me'')"
    by (simp add: mac_host_def)
  have hw: "os_homedir windows_host = Inr (js ''C:/Users/me'')"
    by (simp add: windows_host_def)
  have hl: "os_homedir homeless_host = Inl (SystemError (js ''ERR_SYSTEM_ERROR''))"
    by (simp add: homeless_host_def)
  have m: "find (usable mac_host (files (world_of [js ''/Users/me'' \<mapsto> Dir])))
             (homeCandidates mac_host False (js ''/Users/me'')) = Some (True, js ''/Users/me'')"
    by (simp add: homeCandidates_def usable_def mac_host_def world_of_def entryPresent_def
        truthy_def js_def)
  have e: "getenv windows_host ''HOME'' = js ''D:/home''"
       "getenv windows_host ''USERPROFILE'' = js ''C:/Users/me''"
       "getenv windows_host ''HOMEDRIVE'' = []"
    by (simp_all add: getenv_def windows_host_def js_def)
  have u: "js ''C:/Users/me'' \<noteq> []" "js ''D:/home'' \<noteq> []" "js ''D:/home'' \<noteq> js ''C:/Users/me''"
    by (simp_all add: js_def)
  have a: "fs_access windows_host = entryPresent"
    by (simp add: windows_host_def)
  have x: "find (usable windows_host (files (world_of [js ''D:/home'' \<mapsto> Dir])))
             (homeCandidates windows_host True (js ''C:/Users/me'')) = Some (True, js ''D:/home'')"
    using u by (simp add: homeCandidates_def usable_def e a world_of_def entryPresent_def truthy_def)
  have y: "\<forall>c \<in> set (homeCandidates windows_host True (js ''C:/Users/me'')).
             \<not> usable windows_host (files (world_of Map.empty)) c"
    by (simp add: homeCandidates_def usable_def e a truthy_def world_of_def entryPresent_def)
  have 1: "findHome mac_host False (world_of [js ''/Users/me'' \<mapsto> Dir]) =
     (Inr (js ''/Users/me''), world_of [js ''/Users/me'' \<mapsto> Dir])"
    using findHome_first_accessible [of mac_host False "world_of [js ''/Users/me'' \<mapsto> Dir]"] m hm
    by simp
  have 2: "findHome windows_host True (world_of [js ''D:/home'' \<mapsto> Dir]) =
     (Inr (js ''D:/home''), world_of [js ''D:/home'' \<mapsto> Dir])"
    using findHome_first_accessible [of windows_host True
        "world_of [js ''D:/home'' \<mapsto> Dir]"] x hw
    by simp
  have 3: "\<exists>e. fst (findHome windows_host True (world_of Map.empty)) = Inl e"
    using findHome_first_accessible [of windows_host True "world_of Map.empty"] y hw
    by blast
  have 4: "findHome homeless_host True (world_of Map.empty) =
     (Inl (SystemError (js ''ERR_SYSTEM_ERROR'')), world_of Map.empty)"
    using findHome_first_accessible [of homeless_host True "world_of Map.empty"] hl
    by blast
  from hm hw hl 1 2 3 4 show ?thesis
    by blast
qed

text \<open>
  C7 as the claim words it fails: on a Windows host where \<^verbatim>\<open>os.homedir()\<close> throws,
  \<open>findHome\<close> throws although \<^verbatim>\<open>$HOME\<close> is set and accessible.
\<close>

theorem findHome_throws_with_home_accessible:
  "truthy (getenv homeless_host ''HOME'')
   \<and> fs_access homeless_host (files (world_of [js ''D:/home'' \<mapsto> Dir]))
        (getenv homeless_host ''HOME'')
   \<and> findHome homeless_host True (world_of [js ''D:/home'' \<mapsto> Dir]) =
       (Inl (SystemError (js ''ERR_SYSTEM_ERROR'')), world_of [js ''D:/home'' \<mapsto> Dir])"
proof -
  have e: "getenv homeless_host ''HOME'' = js ''D:/home''"
    by (simp add: getenv_def homeless_host_def js_def)
  have n: "js ''D:/home'' \<noteq> []"
    by (simp add: js_def)
  have a: "fs_access homeless_host = entryPresent"
    by (simp add: homeless_host_def)
  have t: "os_homedir homeless_host = Inl (SystemError (js ''ERR_SYSTEM_ERROR''))"
    by (simp add: homeless_host_def)
  show ?thesis
    by (simp add: e n a truthy_def entryPresent_def world_of_def findHome_throws [OF t])
qed

subsection \<open>Binding kubectl to kuberlr\<close>

lemma lstat_run:
  "lstat p w = (case files w p of None \<Rightarrow> (Inl (SystemError (js ''ENOENT'')), w)
                | Some n \<Rightarrow> (Inr n, w))"
  by (simp add: lstat_def onFiles_def split: option.splits)

lemma readlink_run:
  "files w p = Some (Symlink t) \<Longrightarrow> readlink p w = (Inr t, w)"
  by (simp add: readlink_def onFiles_def)

lemma rm_run:
  "rm p w = (case files w p of
       None \<Rightarrow> (Inl (SystemError (js ''ENOENT'')), w)
     | Some Dir \<Rightarrow> (Inl (SystemError (js ''ERR_FS_EISDIR'')), w)
     | Some File \<Rightarrow> (Inr (), w\<lparr>files := (files w)(p := None)\<rparr>)
     | Some (Symlink t) \<Rightarrow> (Inr (), w\<lparr>files := (files w)(p := None)\<rparr>))"
  by (simp add: rm_def onFiles_def split: option.splits node.splits)

lemma symlink_run:
  "symlink t p w = (case files w p of
       None \<Rightarrow> (Inr (), w\<lparr>files := (files w)(p \<mapsto> Symlink t)\<rparr>)
     | Some n \<Rightarrow> (Inl (SystemError (js ''EEXIST'')), w))"
  by (simp add: symlink_def onFiles_def split: option.splits)

lemma bind_windows:
  "startsWith (os_platform rt) (js ''win'') \<Longrightarrow>
   bindKubectlToKuberlr rt k p w = copyFile rt k p w"
  by (simp add: bindKubectlToKuberlr_def)

lemma bind_absent:
  "\<not> startsWith (os_platform rt) (js ''win'') \<Longrightarrow> files w p = None \<Longrightarrow>
   bindKubectlToKuberlr rt k p w = (Inr (), w\<lparr>files := (files w)(p \<mapsto> Symlink (js ''kuberlr''))\<rparr>)"
  by (simp add: bindKubectlToKuberlr_def andThen_def tryCatch_def lstat_run ret_def symlink_run)

lemma bind_linked:
  "\<not> startsWith (os_platform rt) (js ''win'') \<Longrightarrow> files w p = Some (Symlink (js ''kuberlr'')) \<Longrightarrow>
   bindKubectlToKuberlr rt k p w = (Inr (), w)"
  by (simp add: bindKubectlToKuberlr_def andThen_def tryCatch_def lstat_run ret_def readlink_run)

lemma bind_other_link:
  "\<not> startsWith (os_platform rt) (js ''win'') \<Longrightarrow> files w p = Some (Symlink t) \<Longrightarrow>
   t \<noteq> js ''kuberlr'' \<Longrightarrow>
   bindKubectlToKuberlr rt k p w = andThen (rm p) (\<lambda>_. symlink (js ''kuberlr'') p) w
   \<and> bindKubectlToKuberlr rt k p w =
       (Inr (), w\<lparr>files := (files w)(p \<mapsto> Symlink (js ''kuberlr''))\<rparr>)"
  by (simp add: bindKubectlToKuberlr_def andThen_def tryCatch_def lstat_run ret_def readlink_run
      rm_run symlink_run)

lemma bind_file:
  "\<not> startsWith (os_platform rt) (js ''win'') \<Longrightarrow> files w p = Some File \<Longrightarrow>
   bindKubectlToKuberlr rt k p w =
       (Inr (), w\<lparr>files := (files w)(p \<mapsto> Symlink (js ''kuberlr''))\<rparr>)"
  by (simp add: bindKubectlToKuberlr_def andThen_def tryCatch_def lstat_run ret_def
      rm_run symlink_run)

lemma bind_dir:
  "\<not> startsWith (os_platform rt) (js ''win'') \<Longrightarrow> files w p = Some Dir \<Longrightarrow>
   bindKubectlToKuberlr rt k p w = (Inl (SystemError (js ''EEXIST'')), w)"
  by (simp add: bindKubectlToKuberlr_def andThen_def tryCatch_def lstat_run ret_def
      rm_run symlink_run)

lemma bind_calls: "calls (snd (bindKubectlToKuberlr rt k p w)) = calls w"
proof (cases "startsWith (os_platform rt) (js ''win'')")
  case True
  then show ?thesis
    by (simp add: bind_windows copyFile_def onFiles_def split: prod.splits)
next
  case False
  show ?thesis
  proof (cases "files w p")
    case None
    with False show ?thesis by (simp add: bind_absent)
  next
    case (Some n)
    show ?thesis
    proof (cases n)
      case File
      with False Some show ?thesis by (simp add: bind_file)
    next
      case Dir
      with False Some show ?thesis by (simp add: bind_dir)
    next
      case (Symlink t)
      with False Some show ?thesis
        by (cases "t = js ''kuberlr''") (simp_all add: bind_linked bind_other_link [THEN conjunct2])
    qed
  qed
qed

text \<open>
  C4. Off Windows, \<open>bindKubectlToKuberlr\<close> makes the kubectl path a symbolic link with
  the target \<^verbatim>\<open>kuberlr\<close>: whenever it returns, the path is such a link, and it returns
  whenever the path was absent, a file or a link (a link that is already right is left as
  it is, with the whole state; a link with another target is removed by \<open>rm\<close> and made
  again by \<open>symlink\<close>). Only a directory at the path makes it throw: \<open>rm\<close> fails, the
  \<^verbatim>\<open>catch\<close> swallows that, and \<open>symlink\<close> meets the entry. On Windows the function
  is the copy of the kuberlr file to the kubectl path.
\<close>

theorem bindKubectlToKuberlr_binding:
  "(\<not> startsWith (os_platform rt) (js ''win'') \<longrightarrow>
      (files w p \<noteq> Some Dir \<longrightarrow>
         bindKubectlToKuberlr rt k p w =
           (Inr (), if files w p = Some (Symlink (js ''kuberlr'')) then w
                    else w\<lparr>files := (files w)(p \<mapsto> Symlink (js ''kuberlr''))\<rparr>))
    \<and> (files w p = Some Dir \<longrightarrow>
         bindKubectlToKuberlr rt k p w = (Inl (SystemError (js ''EEXIST'')), w))
    \<and> (\<forall>w'. bindKubectlToKuberlr rt k p w = (Inr (), w') \<longrightarrow>
            files w' p = Some (Symlink (js ''kuberlr'')))
    \<and> (\<forall>t. files w p = Some (Symlink t) \<and> t \<noteq> js ''kuberlr'' \<longrightarrow>
            bindKubectlToKuberlr rt k p w = andThen (rm p) (\<lambda>_. symlink (js ''kuberlr'') p) w
          \<and> fst (rm p w) = Inr () \<and> files (snd (rm p w)) p = None)
    \<and> (files w p = Some (Symlink (js ''kuberlr'')) \<longrightarrow>
         bindKubectlToKuberlr rt k p w = (Inr (), w)))
   \<and> (startsWith (os_platform rt) (js ''win'') \<longrightarrow>
        bindKubectlToKuberlr rt k p w = copyFile rt k p w
      \<and> copyFile rt k p w =
          (fst (fs_copyFile rt k p (files w)), w\<lparr>files := snd (fs_copyFile rt k p (files w))\<rparr>))"
proof -
  have win: "bindKubectlToKuberlr rt k p w = copyFile rt k p w
      \<and> copyFile rt k p w =
          (fst (fs_copyFile rt k p (files w)), w\<lparr>files := snd (fs_copyFile rt k p (files w))\<rparr>)"
    if "startsWith (os_platform rt) (js ''win'')"
    using that by (simp add: bind_windows copyFile_def onFiles_def split: prod.splits)
  have ok: "bindKubectlToKuberlr rt k p w =
           (Inr (), if files w p = Some (Symlink (js ''kuberlr'')) then w
                    else w\<lparr>files := (files w)(p \<mapsto> Symlink (js ''kuberlr''))\<rparr>)"
    if nw: "\<not> startsWith (os_platform rt) (js ''win'')" and nd: "files w p \<noteq> Some Dir"
  proof (cases "files w p")
    case None
    with nw show ?thesis by (simp add: bind_absent)
  next
    case (Some n)
    show ?thesis
    proof (cases n)
      case File
      with nw Some show ?thesis by (simp add: bind_file)
    next
      case Dir
      with nd Some show ?thesis by simp
    next
      case (Symlink t)
      with nw Some show ?thesis
        by (cases "t = js ''kuberlr''") (simp_all add: bind_linked bind_other_link [THEN conjunct2])
    qed
  qed
  have dir: "bindKubectlToKuberlr rt k p w = (Inl (SystemError (js ''EEXIST'')), w)"
    if "\<not> startsWith (os_platform rt) (js ''win'')" "files w p = Some Dir"
    using that by (rule bind_dir)
  have post: "files w' p = Some (Symlink (js ''kuberlr''))"
    if nw: "\<not> startsWith (os_platform rt) (js ''win'')"
      and r: "bindKubectlToKuberlr rt k p w = (Inr (), w')" for w'
  proof (cases "files w p = Some Dir")
    case True
    with dir [OF nw] r show ?thesis by simp
  next
    case False
    with ok [OF nw] r show ?thesis by (auto split: if_splits)
  qed
  have rep: "bindKubectlToKuberlr rt k p w = andThen (rm p) (\<lambda>_. symlink (js ''kuberlr'') p) w
          \<and> fst (rm p w) = Inr () \<and> files (snd (rm p w)) p = None"
    if "\<not> startsWith (os_platform rt) (js ''win'')" "files w p = Some (Symlink t)"
      "t \<noteq> js ''kuberlr''" for t
    using that by (simp add: bind_other_link [THEN conjunct1] rm_run)
  have same: "bindKubectlToKuberlr rt k p w = (Inr (), w)"
    if "\<not> startsWith (os_platform rt) (js ''win'')" "files w p = Some (Symlink (js ''kuberlr''))"
    using that by (rule bind_linked)
  from win ok dir post rep same show ?thesis
    by blast
qed

theorem bindKubectlToKuberlr_binding_witness:
  "\<not> startsWith (os_platform mac_host) (js ''win'')
   \<and> bindKubectlToKuberlr mac_host kuberlr_path kubectl_path
        (world_of [kubectl_path \<mapsto> Symlink (js ''/usr/local/bin/kubectl'')]) =
       (Inr (), world_of [kubectl_path \<mapsto> Symlink (js ''kuberlr'')])
   \<and> bindKubectlToKuberlr mac_host kuberlr_path kubectl_path
        (world_of [kubectl_path \<mapsto> Symlink (js ''kuberlr'')]) =
       (Inr (), world_of [kubectl_path \<mapsto> Symlink (js ''kuberlr'')])
   \<and> bindKubectlToKuberlr mac_host kuberlr_path kubectl_path (world_of Map.empty) =
       (Inr (), world_of [kubectl_path \<mapsto> Symlink (js ''kuberlr'')])
   \<and> startsWith (os_platform windows_host) (js ''win'')
   \<and> bindKubectlToKuberlr windows_host kuberlr_path kubectl_path
        (world_of [kuberlr_path \<mapsto> File]) =
       (Inr (), world_of [kuberlr_path \<mapsto> File, kubectl_path \<mapsto> File])"
proof -
  have m: "\<not> startsWith (os_platform mac_host) (js ''win'')"
    by (simp add: mac_host_def startsWith_def js_def)
  have x: "startsWith (os_platform windows_host) (js ''win'')"
    by (simp add: windows_host_def startsWith_def js_def)
  have ne: "js ''/usr/local/bin/kubectl'' \<noteq> js ''kuberlr''" "kuberlr_path \<noteq> kubectl_path"
    by (simp_all add: js_def kuberlr_path_def kubectl_path_def)
  have 1: "bindKubectlToKuberlr mac_host kuberlr_path kubectl_path
        (world_of [kubectl_path \<mapsto> Symlink (js ''/usr/local/bin/kubectl'')]) =
       (Inr (), world_of [kubectl_path \<mapsto> Symlink (js ''kuberlr'')])"
    using bindKubectlToKuberlr_binding [of mac_host
        "world_of [kubectl_path \<mapsto> Symlink (js ''/usr/local/bin/kubectl'')]" kubectl_path
        kuberlr_path] m ne
    by (simp add: world_of_def)
  have 2: "bindKubectlToKuberlr mac_host kuberlr_path kubectl_path
        (world_of [kubectl_path \<mapsto> Symlink (js ''kuberlr'')]) =
       (Inr (), world_of [kubectl_path \<mapsto> Symlink (js ''kuberlr'')])"
    using bindKubectlToKuberlr_binding [of mac_host
        "world_of [kubectl_path \<mapsto> Symlink (js ''kuberlr'')]" kubectl_path kuberlr_path] m
    by (simp add: world_of_def)
  have 3: "bindKubectlToKuberlr mac_host kuberlr_path kubectl_path (world_of Map.empty) =
       (Inr (), world_of [kubectl_path \<mapsto> Symlink (js ''kuberlr'')])"
    using bindKubectlToKuberlr_binding [of mac_host "world_of Map.empty" kubectl_path
        kuberlr_path] m
    by (simp add: world_of_def)
  have c: "fs_copyFile windows_host = entryCopy"
    by (simp add: windows_host_def)
  have 4: "bindKubectlToKuberlr windows_host kuberlr_path kubectl_path
        (world_of [kuberlr_path \<mapsto> File]) =
       (Inr (), world_of [kuberlr_path \<mapsto> File, kubectl_path \<mapsto> File])"
    using bindKubectlToKuberlr_binding [of windows_host "world_of [kuberlr_path \<mapsto> File]"
        kubectl_path kuberlr_path] x
    by (simp add: world_of_def c entryCopy_def)
  from m x 1 2 3 4 show ?thesis
    by blast
qed

subsection \<open>The dashboard\<close>

lemma download_run:
  "download l url dest opts w =
     (fst (lib_download l url dest opts (files w)),
      w\<lparr>files := snd (lib_download l url dest opts (files w)),
        calls := calls w @ [Download url dest opts]\<rparr>)"
  by (simp add: download_def andThen_def logCall_def onFiles_def split: prod.splits)

lemma findChecksum_calls:
  "snd (findChecksum l url name w) = w\<lparr>calls := calls w @ [GetResource url]\<rparr>"
proof (cases "lib_getResource l url")
  case (Inl e)
  then show ?thesis by (simp add: findChecksum_fail)
next
  case (Inr manifest)
  then show ?thesis by (simp add: findChecksum_cases)
qed

lemma findChecksum_result:
  "fst (findChecksum l url name w) =
     (case lib_getResource l url of
        Inl e \<Rightarrow> Inl e
      | Inr manifest \<Rightarrow> fst (findChecksum l url name w))"
  by (simp add: findChecksum_fail split: sum.splits)

lemma findChecksum_value:
  "fst (findChecksum l url name w) = Inr v \<Longrightarrow>
   \<exists>manifest d. lib_getResource l url = Inr manifest \<and> matching manifest name = [d]
      \<and> v = Some (firstField d)"
proof (cases "lib_getResource l url")
  case (Inl e)
  assume "fst (findChecksum l url name w) = Inr v"
  with Inl show ?thesis by (simp add: findChecksum_fail)
next
  case (Inr manifest)
  assume "fst (findChecksum l url name w) = Inr v"
  with Inr show ?thesis
    by (auto simp: findChecksum_cases split: list.splits)
qed

lemma dashboard_exists:
  assumes "fs_existsSync rt (files w) (dashboardDir rt)"
  shows "downloadRancherDashboard l rt w =
     (case fst (findChecksum l dashboardChecksumURL dashboardExecutable w) of
        Inl e \<Rightarrow> Inl e | Inr sha \<Rightarrow> Inr (),
      w\<lparr>calls := calls w @ [GetResource dashboardChecksumURL]\<rparr>)"
proof -
  obtain r where r: "findChecksum l dashboardChecksumURL dashboardExecutable w =
      (r, w\<lparr>calls := calls w @ [GetResource dashboardChecksumURL]\<rparr>)"
    using findChecksum_calls [of l dashboardChecksumURL dashboardExecutable w]
    by (cases "findChecksum l dashboardChecksumURL dashboardExecutable w") simp
  show ?thesis
    using assms
    by (simp add: downloadRancherDashboard_def Let_def andThen_def
        r [unfolded dashboardChecksumURL_def dashboardExecutable_def]
        dashboardChecksumURL_def dashboardExecutable_def
        dashboardDir_def ret_def split: sum.splits)
qed

text \<open>
  C3, as the code has it. When the dashboard directory exists, \<open>downloadRancherDashboard\<close>
  still asks the network for the checksum manifest first, and fails if that fails or if
  the manifest does not have exactly one matching line. It makes no other call (no
  download), leaves the file system as it was, and returns normally exactly when the
  checksum was resolved. Running it again leaves the file system unchanged too.
\<close>

theorem dashboard_present_skips_download:
  assumes "fs_existsSync rt (files w) (dashboardDir rt)"
  shows "files (snd (downloadRancherDashboard l rt w)) = files w
    \<and> calls (snd (downloadRancherDashboard l rt w)) = calls w @ [GetResource dashboardChecksumURL]
    \<and> (fst (downloadRancherDashboard l rt w) = Inr ()) =
        (\<exists>manifest d. lib_getResource l dashboardChecksumURL = Inr manifest
           \<and> matching manifest dashboardExecutable = [d])
    \<and> (\<forall>e. lib_getResource l dashboardChecksumURL = Inl e \<longrightarrow>
          fst (downloadRancherDashboard l rt w) = Inl e)
    \<and> files (snd (downloadRancherDashboard l rt (snd (downloadRancherDashboard l rt w)))) =
        files w"
proof -
  let ?r = "downloadRancherDashboard l rt w"
  have snd1: "snd ?r = w\<lparr>calls := calls w @ [GetResource dashboardChecksumURL]\<rparr>"
    by (simp add: dashboard_exists [OF assms])
  have ok: "(fst ?r = Inr ()) =
        (\<exists>manifest d. lib_getResource l dashboardChecksumURL = Inr manifest
           \<and> matching manifest dashboardExecutable = [d])"
  proof (cases "lib_getResource l dashboardChecksumURL")
    case (Inl e)
    then show ?thesis
      by (simp add: dashboard_exists [OF assms] findChecksum_fail)
  next
    case (Inr manifest)
    then show ?thesis
      by (simp add: dashboard_exists [OF assms] findChecksum_cases split: list.splits)
  qed
  have err: "fst ?r = Inl e" if "lib_getResource l dashboardChecksumURL = Inl e" for e
    using that by (simp add: dashboard_exists [OF assms] findChecksum_fail)
  have again: "fs_existsSync rt (files (snd ?r)) (dashboardDir rt)"
    using assms by (simp add: snd1)
  have "files (snd (downloadRancherDashboard l rt (snd ?r))) = files (snd ?r)"
    by (simp add: dashboard_exists [OF again])
  then have twice: "files (snd (downloadRancherDashboard l rt (snd ?r))) = files w"
    by (simp add: snd1)
  from snd1 ok err twice show ?thesis
    by simp
qed

lemma dashboard_present_exists:
  "fs_existsSync mac_host (files dashboard_present) (dashboardDir mac_host)"
  by (simp add: dashboard_present_def world_of_def mac_host_def entryPresent_def)

theorem dashboard_present_skips_download_witness:
  "fs_existsSync mac_host (files dashboard_present) (dashboardDir mac_host)
   \<and> fst (downloadRancherDashboard (answering_lib dashboard_manifest) mac_host dashboard_present)
       = Inr ()
   \<and> files (snd (downloadRancherDashboard (answering_lib dashboard_manifest) mac_host
        dashboard_present)) = files dashboard_present
   \<and> calls (snd (downloadRancherDashboard (answering_lib dashboard_manifest) mac_host
        dashboard_present)) = calls dashboard_present @ [GetResource dashboardChecksumURL]"
proof -
  have g: "lib_getResource (answering_lib dashboard_manifest) dashboardChecksumURL =
      Inr dashboard_manifest"
    by (simp add: answering_lib_def)
  have m: "matching dashboard_manifest dashboardExecutable = [dashboard_manifest]"
    by (simp add: matching_def dashboard_manifest_def dashboardExecutable_def js_def
        isLF_def isCR_def startsWith_def)
  show ?thesis
    using dashboard_present_skips_download [OF dashboard_present_exists,
        of "answering_lib dashboard_manifest"] dashboard_present_exists g m
    by simp
qed

text \<open>
  C3 as the claim words it fails: with the dashboard directory present and the network
  down, the run is not skipped. It asks for the checksum manifest and throws.
\<close>

theorem dashboard_present_still_fails_offline:
  "fs_existsSync mac_host (files dashboard_present) (dashboardDir mac_host)
   \<and> downloadRancherDashboard offline_lib mac_host dashboard_present =
       (Inl (SystemError (js ''ENOTFOUND'')),
        dashboard_present\<lparr>calls := [GetResource dashboardChecksumURL]\<rparr>)"
proof -
  have g: "lib_getResource offline_lib dashboardChecksumURL = Inl (SystemError (js ''ENOTFOUND''))"
    by (simp add: offline_lib_def)
  have c: "calls dashboard_present = []"
    by (simp add: dashboard_present_def world_of_def)
  show ?thesis
    by (simp add: dashboard_present_exists dashboard_exists findChecksum_fail [OF g] c)
qed

subsection \<open>docker-buildx\<close>

lemma mac_M1: "truthy (getenv mac_host ''M1'')"
  by (simp add: truthy_def getenv_def mac_host_def js_def)

lemma windows_M1: "\<not> truthy (getenv windows_host ''M1'')"
  by (simp add: truthy_def getenv_def windows_host_def js_def)

lemma KubePlatform_str_darwin:
  "(KubePlatform_str kp = js ''darwin'') = (kp = K_darwin)"
  by (cases kp) (simp_all add: js_def)

lemma buildx_names:
  "js ''https://github.com/docker/buildx/releases/download/'' @ js ''v0.8.2'' @
     js ''/checksums.txt'' = buildxChecksumsURL"
  by (simp add: buildxChecksumsURL_def)

lemma buildx_darwin:
  assumes "kubePlatform ctx = K_darwin"
  shows "downloadDockerBuildx l rt ctx w =
           download l (buildxURL rt ctx) (buildxPath rt ctx) noOptions w"
  using assms
  by (simp add: downloadDockerBuildx_def Let_def andThen_def ret_def KubePlatform_str_darwin
      buildxURL_def buildxPath_def buildxExecutable_def)

lemma buildx_other:
  assumes "kubePlatform ctx \<noteq> K_darwin"
  shows "downloadDockerBuildx l rt ctx w =
     (case fst (findChecksum l buildxChecksumsURL (buildxExecutable rt ctx) w) of
        Inl e \<Rightarrow> (Inl e, w\<lparr>calls := calls w @ [GetResource buildxChecksumsURL]\<rparr>)
      | Inr sha \<Rightarrow>
          download l (buildxURL rt ctx) (buildxPath rt ctx) (noOptions\<lparr>expectedChecksum := sha\<rparr>)
            (w\<lparr>calls := calls w @ [GetResource buildxChecksumsURL]\<rparr>))"
proof -
  obtain r where r: "findChecksum l buildxChecksumsURL (buildxExecutable rt ctx) w =
      (r, w\<lparr>calls := calls w @ [GetResource buildxChecksumsURL]\<rparr>)"
    using findChecksum_calls [of l buildxChecksumsURL "buildxExecutable rt ctx" w]
    by (cases "findChecksum l buildxChecksumsURL (buildxExecutable rt ctx) w") simp
  show ?thesis
    using assms
    by (simp add: downloadDockerBuildx_def Let_def andThen_def ret_def KubePlatform_str_darwin
      buildxURL_def buildxPath_def
      r [unfolded buildxExecutable_def buildxChecksumsURL_def]
      buildxExecutable_def buildxChecksumsURL_def split: sum.splits)
qed

lemma newCalls_download:
  "newCalls w (download l url dest opts (w\<lparr>calls := calls w @ cs\<rparr>)) =
     cs @ [Download url dest opts]"
  by (simp add: newCalls_def download_run)

lemma newCalls_download0:
  "newCalls w (download l url dest opts w) = [Download url dest opts]"
  by (simp add: newCalls_def download_run)

lemma ecr_run:
  "downloadECRCredHelper l rt ctx version w =
     download l (ecrURL rt ctx version) (path_join rt [binDir ctx, ecrBinName ctx]) noOptions w"
  by (simp add: downloadECRCredHelper_def Let_def ecrURL_def ecrBinName_def startsWith_win)

text \<open>
  C6, as the code has it. In \<open>downloadDockerBuildx\<close> the download goes without an
  expected checksum exactly when the kube platform is \<^verbatim>\<open>darwin\<close>: there it makes one
  call, the download, and does not ask for a manifest. On every other platform it asks for
  \<^verbatim>\<open>checksums.txt\<close> first; then it either throws without downloading, or downloads with
  the first field of the one matching line as expected checksum. It is not the only
  download without a checksum: \<open>downloadECRCredHelper\<close> passes none on any platform.
\<close>

theorem buildx_checksum_skipped_on_darwin_only:
  "(kubePlatform ctx = K_darwin \<longrightarrow>
      downloadDockerBuildx l rt ctx w =
        download l (buildxURL rt ctx) (buildxPath rt ctx) noOptions w
    \<and> newCalls w (downloadDockerBuildx l rt ctx w) =
        [Download (buildxURL rt ctx) (buildxPath rt ctx) noOptions]
    \<and> expectedChecksum noOptions = None)
   \<and> (kubePlatform ctx \<noteq> K_darwin \<longrightarrow>
      ((\<exists>e. downloadDockerBuildx l rt ctx w =
             (Inl e, w\<lparr>calls := calls w @ [GetResource buildxChecksumsURL]\<rparr>))
       \<or> (\<exists>manifest d. lib_getResource l buildxChecksumsURL = Inr manifest
             \<and> matching manifest (buildxExecutable rt ctx) = [d]
             \<and> downloadDockerBuildx l rt ctx w =
                 download l (buildxURL rt ctx) (buildxPath rt ctx)
                   (noOptions\<lparr>expectedChecksum := Some (firstField d)\<rparr>)
                   (w\<lparr>calls := calls w @ [GetResource buildxChecksumsURL]\<rparr>)
             \<and> newCalls w (downloadDockerBuildx l rt ctx w) =
                 [GetResource buildxChecksumsURL,
                  Download (buildxURL rt ctx) (buildxPath rt ctx)
                    (noOptions\<lparr>expectedChecksum := Some (firstField d)\<rparr>)])))
   \<and> newCalls w (downloadECRCredHelper l rt ctx version w) =
       [Download (ecrURL rt ctx version) (path_join rt [binDir ctx, ecrBinName ctx]) noOptions]"
proof -
  have ecr: "newCalls w (downloadECRCredHelper l rt ctx version w) =
       [Download (ecrURL rt ctx version) (path_join rt [binDir ctx, ecrBinName ctx]) noOptions]"
    by (simp add: ecr_run newCalls_download0)
  have d: "downloadDockerBuildx l rt ctx w =
        download l (buildxURL rt ctx) (buildxPath rt ctx) noOptions w
    \<and> newCalls w (downloadDockerBuildx l rt ctx w) =
        [Download (buildxURL rt ctx) (buildxPath rt ctx) noOptions]
    \<and> expectedChecksum noOptions = None" if "kubePlatform ctx = K_darwin"
    by (simp add: buildx_darwin [OF that] newCalls_download0 noOptions_def)
  have o: "(\<exists>e. downloadDockerBuildx l rt ctx w =
             (Inl e, w\<lparr>calls := calls w @ [GetResource buildxChecksumsURL]\<rparr>))
       \<or> (\<exists>manifest d. lib_getResource l buildxChecksumsURL = Inr manifest
             \<and> matching manifest (buildxExecutable rt ctx) = [d]
             \<and> downloadDockerBuildx l rt ctx w =
                 download l (buildxURL rt ctx) (buildxPath rt ctx)
                   (noOptions\<lparr>expectedChecksum := Some (firstField d)\<rparr>)
                   (w\<lparr>calls := calls w @ [GetResource buildxChecksumsURL]\<rparr>)
             \<and> newCalls w (downloadDockerBuildx l rt ctx w) =
                 [GetResource buildxChecksumsURL,
                  Download (buildxURL rt ctx) (buildxPath rt ctx)
                    (noOptions\<lparr>expectedChecksum := Some (firstField d)\<rparr>)])"
    if nd: "kubePlatform ctx \<noteq> K_darwin"
  proof (cases "fst (findChecksum l buildxChecksumsURL (buildxExecutable rt ctx) w)")
    case (Inl e)
    then show ?thesis
      by (simp add: buildx_other [OF nd])
  next
    case (Inr v)
    from findChecksum_value [OF Inr] obtain manifest d where
      md: "lib_getResource l buildxChecksumsURL = Inr manifest"
        "matching manifest (buildxExecutable rt ctx) = [d]" "v = Some (firstField d)"
      by blast
    have "downloadDockerBuildx l rt ctx w =
                 download l (buildxURL rt ctx) (buildxPath rt ctx)
                   (noOptions\<lparr>expectedChecksum := Some (firstField d)\<rparr>)
                   (w\<lparr>calls := calls w @ [GetResource buildxChecksumsURL]\<rparr>)"
      using Inr md(3) by (simp add: buildx_other [OF nd])
    moreover from this have "newCalls w (downloadDockerBuildx l rt ctx w) =
                 [GetResource buildxChecksumsURL,
                  Download (buildxURL rt ctx) (buildxPath rt ctx)
                    (noOptions\<lparr>expectedChecksum := Some (firstField d)\<rparr>)]"
      by (simp add: newCalls_download)
    ultimately show ?thesis
      using md(1,2) by blast
  qed
  from d o ecr show ?thesis
    by blast
qed

theorem buildx_checksum_skipped_on_darwin_only_witness:
  "kubePlatform darwin_context = K_darwin
   \<and> newCalls home_present
        (downloadDockerBuildx (answering_lib buildx_manifest) mac_host darwin_context
           home_present) =
       [Download (buildxURL mac_host darwin_context) (buildxPath mac_host darwin_context)
          noOptions]
   \<and> kubePlatform linux_context \<noteq> K_darwin
   \<and> lib_getResource (answering_lib buildx_manifest) buildxChecksumsURL = Inr buildx_manifest
   \<and> matching buildx_manifest (buildxExecutable mac_host linux_context) = [buildx_manifest]
   \<and> firstField buildx_manifest = js ''aa''
   \<and> newCalls home_present
        (downloadDockerBuildx (answering_lib buildx_manifest) mac_host linux_context
           home_present) =
       [GetResource buildxChecksumsURL,
        Download (buildxURL mac_host linux_context) (buildxPath mac_host linux_context)
          (noOptions\<lparr>expectedChecksum := Some (js ''aa'')\<rparr>)]"
proof -
  have d: "kubePlatform darwin_context = K_darwin"
    by (simp add: darwin_context_def)
  have n: "kubePlatform linux_context \<noteq> K_darwin"
    by (simp add: linux_context_def)
  have g: "lib_getResource (answering_lib buildx_manifest) buildxChecksumsURL = Inr buildx_manifest"
    by (simp add: answering_lib_def)
  have e: "buildxExecutable mac_host linux_context = js ''buildx-v0.8.2.linux-arm64''"
    using mac_M1 by (simp add: buildxExecutable_def exeName_def linux_context_def startsWith_def js_def)
  have m: "matching buildx_manifest (buildxExecutable mac_host linux_context) = [buildx_manifest]"
    unfolding e
    by (simp add: matching_def buildx_manifest_def js_def isLF_def isCR_def startsWith_def)
  have f: "firstField buildx_manifest = js ''aa''"
    by (simp add: firstField_def buildx_manifest_def js_def isWs_def)
  have ok: "fst (downloadDockerBuildx (answering_lib buildx_manifest) mac_host linux_context
           home_present) = Inr ()"
  proof -
    have dl: "lib_download (answering_lib buildx_manifest) =
        (\<lambda>url dest opts fs. (Inr (), fs(dest \<mapsto> File)))"
      by (simp add: answering_lib_def)
    show ?thesis
      by (simp add: buildx_other [OF n] findChecksum_cases [OF g] m download_run dl)
  qed
  have 1: "newCalls home_present
        (downloadDockerBuildx (answering_lib buildx_manifest) mac_host darwin_context
           home_present) =
       [Download (buildxURL mac_host darwin_context) (buildxPath mac_host darwin_context)
          noOptions]"
    using buildx_checksum_skipped_on_darwin_only [of darwin_context
        "answering_lib buildx_manifest" mac_host home_present] d
    by blast
  have 2: "newCalls home_present
        (downloadDockerBuildx (answering_lib buildx_manifest) mac_host linux_context
           home_present) =
       [GetResource buildxChecksumsURL,
        Download (buildxURL mac_host linux_context) (buildxPath mac_host linux_context)
          (noOptions\<lparr>expectedChecksum := Some (js ''aa'')\<rparr>)]"
  proof -
    let ?run = "downloadDockerBuildx (answering_lib buildx_manifest) mac_host linux_context
        home_present"
    have no: "\<not> (\<exists>e. ?run = (Inl e,
        home_present\<lparr>calls := calls home_present @ [GetResource buildxChecksumsURL]\<rparr>))"
      using ok by auto
    from buildx_checksum_skipped_on_darwin_only [of linux_context
        "answering_lib buildx_manifest" mac_host home_present] n no
    obtain manifest d where md:
      "lib_getResource (answering_lib buildx_manifest) buildxChecksumsURL = Inr manifest"
      "matching manifest (buildxExecutable mac_host linux_context) = [d]"
      "newCalls home_present ?run =
         [GetResource buildxChecksumsURL,
          Download (buildxURL mac_host linux_context) (buildxPath mac_host linux_context)
            (noOptions\<lparr>expectedChecksum := Some (firstField d)\<rparr>)]"
      by blast
    from md(1) g have "manifest = buildx_manifest"
      by simp
    with md(2) m have "d = buildx_manifest"
      by simp
    with md(3) f show ?thesis
      by simp
  qed
  from d n g m f 1 2 show ?thesis
    by blast
qed

text \<open>
  C6 as the claim words it fails: docker-buildx on \<^verbatim>\<open>darwin\<close> is not the one download
  without an expected checksum. On Linux, \<open>downloadECRCredHelper\<close> downloads with no
  options at all.
\<close>

theorem ecr_helper_download_unverified:
  "kubePlatform linux_context \<noteq> K_darwin
   \<and> newCalls home_present
        (downloadECRCredHelper offline_lib mac_host linux_context (js ''0.6.0'') home_present) =
       [Download (ecrURL mac_host linux_context (js ''0.6.0''))
          (path_join mac_host [binDir linux_context, ecrBinName linux_context]) noOptions]
   \<and> expectedChecksum noOptions = None"
  by (simp add: ecr_run newCalls_download0 linux_context_def noOptions_def)

subsection \<open>kuberlr and kubectl\<close>

lemma emitsI:
  "(\<And>w. \<exists>cs. calls (snd (m w)) = calls w @ cs \<and> list_all P cs) \<Longrightarrow> emits P m"
  by (simp add: emits_def)

lemma emitsD:
  "emits P m \<Longrightarrow> \<exists>cs. calls (snd (m w)) = calls w @ cs \<and> list_all P cs"
  by (simp add: emits_def)

lemma emits_ret: "emits P (ret x)"
  by (rule emitsI) (simp add: ret_def)

lemma emits_throw: "emits P (throw e)"
  by (rule emitsI) (simp add: throw_def)

lemma emits_onFiles: "emits P (onFiles f)"
  by (rule emitsI) (simp add: onFiles_def split: prod.splits)

lemma emits_same_calls:
  "(\<And>w. calls (snd (m w)) = calls w) \<Longrightarrow> emits P m"
  by (rule emitsI) simp

lemma emits_andThen:
  assumes m: "emits P m" and f: "\<And>x. emits P (f x)"
  shows "emits P (andThen m f)"
proof (rule emitsI)
  fix w
  from emitsD [OF m, of w] obtain cs where cs: "calls (snd (m w)) = calls w @ cs" "list_all P cs"
    by blast
  show "\<exists>cs. calls (snd (andThen m f w)) = calls w @ cs \<and> list_all P cs"
  proof (cases "m w")
    case (Pair r w')
    show ?thesis
    proof (cases r)
      case (Inl e)
      with Pair cs show ?thesis
        by (auto simp: andThen_def)
    next
      case (Inr x)
      from emitsD [OF f [of x], of w'] obtain ds where
        ds: "calls (snd (f x w')) = calls w' @ ds" "list_all P ds"
        by blast
      from Pair cs have "calls w' = calls w @ cs"
        by simp
      with ds have "calls (snd (f x w')) = calls w @ (cs @ ds)" "list_all P (cs @ ds)"
        using cs(2) by simp_all
      with Pair Inr show ?thesis
        by (auto simp: andThen_def)
    qed
  qed
qed

lemma emits_getResource: "emits (asClaimed l rt ctx) (getResource l' url)"
  by (rule emitsI) (simp add: getResource_run asClaimed_def)

lemma emits_findHome: "emits P (findHome rt b)"
  by (rule emits_same_calls) (simp add: findHome_state)

lemma emits_bind: "emits P (bindKubectlToKuberlr rt k p)"
  by (rule emits_same_calls) (rule bind_calls)

lemma emits_kuberlrDownload:
  "emits (asClaimed l rt ctx) (kuberlrDownload l' rt' ctx (js ''amd64'') d)"
  by (rule emitsI)
     (simp add: kuberlrDownload_def downloadZip_def downloadTarGZ_def andThen_def logCall_def
      onFiles_def asClaimed_def kuberlrOptions_def split: prod.splits)

lemma emits_downloadKuberlr:
  "emits (asClaimed l rt ctx) (downloadKuberlr l' rt' ctx (js ''amd64''))"
proof (rule emitsI)
  fix w :: world
  let ?w = "w\<lparr>calls := calls w @ [GetResource kuberlrChecksumsURL]\<rparr>"
  show "\<exists>cs. calls (snd (downloadKuberlr l' rt' ctx (js ''amd64'') w)) = calls w @ cs \<and>
          list_all (asClaimed l rt ctx) cs"
  proof (cases "lib_getResource l' kuberlrChecksumsURL")
    case (Inl e)
    then show ?thesis
      by (simp add: downloadKuberlr_fail asClaimed_def)
  next
    case (Inr manifest)
    show ?thesis
    proof (cases "\<exists>d. matching manifest (kuberlrPlatformDir ctx (js ''amd64'')) = [d]")
      case True
      then obtain d where d: "matching manifest (kuberlrPlatformDir ctx (js ''amd64'')) = [d]"
        by blast
      from emitsD [OF emits_kuberlrDownload [of l rt ctx l' rt' d], of ?w] obtain cs where
        "calls (snd (kuberlrDownload l' rt' ctx (js ''amd64'') d ?w)) = calls ?w @ cs"
        "list_all (asClaimed l rt ctx) cs"
        by blast
      then have "calls (snd (downloadKuberlr l' rt' ctx (js ''amd64'') w)) =
          calls w @ (GetResource kuberlrChecksumsURL # cs)"
        "list_all (asClaimed l rt ctx) (GetResource kuberlrChecksumsURL # cs)"
        by (simp_all add: downloadKuberlr_cases [OF Inr] d asClaimed_def)
      then show ?thesis
        by blast
    next
      case False
      then have "calls (snd (downloadKuberlr l' rt' ctx (js ''amd64'') w)) =
          calls w @ [GetResource kuberlrChecksumsURL]"
        by (simp add: downloadKuberlr_cases [OF Inr] throw_def split: list.splits)
      then show ?thesis
        by (simp add: asClaimed_def)
    qed
  qed
qed

lemma emits_getResource_then:
  assumes "\<And>x. lib_getResource l' url = Inr x \<Longrightarrow> emits (asClaimed l rt ctx) (f x)"
  shows "emits (asClaimed l rt ctx) (andThen (getResource l' url) f)"
proof (rule emitsI)
  fix w :: world
  let ?w = "w\<lparr>calls := calls w @ [GetResource url]\<rparr>"
  show "\<exists>cs. calls (snd (andThen (getResource l' url) f w)) = calls w @ cs \<and>
          list_all (asClaimed l rt ctx) cs"
  proof (cases "lib_getResource l' url")
    case (Inl e)
    then show ?thesis
      by (simp add: andThen_def getResource_run asClaimed_def)
  next
    case (Inr x)
    from emitsD [OF assms [OF Inr], of ?w] obtain cs where
      "calls (snd (f x ?w)) = calls ?w @ cs" "list_all (asClaimed l rt ctx) cs"
      by blast
    then have "calls (snd (andThen (getResource l' url) f w)) = calls w @ (GetResource url # cs)"
      "list_all (asClaimed l rt ctx) (GetResource url # cs)"
      by (simp_all add: andThen_def getResource_run Inr asClaimed_def)
    then show ?thesis
      by blast
  qed
qed

lemma emits_kubectl_download:
  assumes "lib_getResource l stableURL = Inr stableTxt"
  shows "emits (asClaimed l rt ctx) (download l' (kubectlURL rt ctx stableTxt) dest opts)"
  by (rule emitsI) (simp add: download_run asClaimed_def assms)

lemma kubectlURL_unfolded:
  "js ''https://dl.k8s.io/'' @ trim s @ js ''/bin/'' @ KubePlatform_str (kubePlatform ctx) @
     js ''/'' @ (if truthy (getenv rt ''M1'') then js ''arm64'' else js ''amd64'') @
     js ''/'' @ exeName ctx (js ''kubectl'') = kubectlURL rt ctx s"
  by (simp add: kubectlURL_def)

lemma emits_downloadKuberlrAndKubectl:
  "emits (asClaimed l rt ctx) (downloadKuberlrAndKubectl l rt ctx)"
  unfolding downloadKuberlrAndKubectl_def Let_def
proof (rule emits_andThen [OF emits_downloadKuberlr], rule emits_andThen [OF emits_bind])
  fix kuberlrPath :: jsstring and u :: unit
  show "emits (asClaimed l rt ctx)
     (if Platform_str (platform ctx) = os_platform rt
      then andThen (getResource l (js ''https://dl.k8s.io/release/stable.txt''))
         (\<lambda>stableTxt.
            andThen (getResource l
               ((js ''https://dl.k8s.io/'' @ trim stableTxt @ js ''/bin/'' @
                 KubePlatform_str (kubePlatform ctx) @ js ''/'' @
                 (if truthy (getenv rt ''M1'') then js ''arm64'' else js ''amd64'') @
                 js ''/'' @ exeName ctx (js ''kubectl'')) @ js ''.sha256''))
              (\<lambda>kubectlSHA.
                 andThen (findHome rt (startsWith (Platform_str (platform ctx)) (js ''win'')))
                   (\<lambda>homeDir.
                      download l
                        (js ''https://dl.k8s.io/'' @ trim stableTxt @ js ''/bin/'' @
                         KubePlatform_str (kubePlatform ctx) @ js ''/'' @
                         (if truthy (getenv rt ''M1'') then js ''arm64'' else js ''amd64'') @
                         js ''/'' @ exeName ctx (js ''kubectl''))
                        (path_join rt
                          [path_join rt
                            [homeDir, js ''.kuberlr'',
                             KubePlatform_str (kubePlatform ctx) @ js ''-'' @
                             (if truthy (getenv rt ''M1'') then js ''arm64'' else js ''amd64'')],
                           exeName ctx (js ''kubectl'' @ stripLeadingV (trim stableTxt))])
                        (noOptions\<lparr>expectedChecksum := Some kubectlSHA\<rparr>))))
      else ret ())"
  proof (cases "Platform_str (platform ctx) = os_platform rt")
    case False
    then show ?thesis
      by (simp add: emits_ret)
  next
    case True
    show ?thesis
      unfolding if_P [OF True] kubectlURL_unfolded stableURL_def [symmetric]
    proof (rule emits_getResource_then, rule emits_getResource_then,
        rule emits_andThen [OF emits_findHome])
      fix stableTxt kubectlSHA homeDir :: jsstring
      assume "lib_getResource l stableURL = Inr stableTxt"
      then show "emits (asClaimed l rt ctx)
          (download l (kubectlURL rt ctx stableTxt)
            (path_join rt
              [path_join rt
                [homeDir, js ''.kuberlr'',
                 KubePlatform_str (kubePlatform ctx) @ js ''-'' @
                 (if truthy (getenv rt ''M1'') then js ''arm64'' else js ''amd64'')],
               exeName ctx (js ''kubectl'' @ stripLeadingV (trim stableTxt))])
            (noOptions\<lparr>expectedChecksum := Some kubectlSHA\<rparr>))"
        by (rule emits_kubectl_download)
    qed
  qed
qed

lemma andThen_calls_extend:
  assumes "\<And>x. emits (\<lambda>c. True) (f x)"
  shows "\<exists>ds. calls (snd (andThen m f w)) = calls (snd (m w)) @ ds"
proof (cases "m w")
  case (Pair r w')
  show ?thesis
  proof (cases r)
    case (Inl e)
    with Pair show ?thesis by (simp add: andThen_def)
  next
    case (Inr x)
    from emitsD [OF assms [of x], of w'] Pair Inr show ?thesis
      by (auto simp: andThen_def)
  qed
qed

lemma emits_if: "emits P a \<Longrightarrow> emits P b \<Longrightarrow> emits P (if c then a else b)"
  by simp

lemma emits_getResource_any: "emits (\<lambda>c. True) (getResource l url)"
  by (rule emitsI) (simp add: getResource_run)

lemma emits_download_any: "emits (\<lambda>c. True) (download l url dest opts)"
  by (rule emitsI) (simp add: download_run)

lemma kuberlrAndKubectl_extends:
  "\<exists>ds. calls (snd (downloadKuberlrAndKubectl l rt ctx w)) =
         calls (snd (downloadKuberlr l rt ctx (js ''amd64'') w)) @ ds"
  unfolding downloadKuberlrAndKubectl_def Let_def
  by (intro andThen_calls_extend emits_andThen emits_if emits_bind emits_ret
      emits_getResource_any emits_findHome emits_download_any)

lemma kuberlrDownload_calls_exact:
  "calls (snd (kuberlrDownload l rt ctx arch d w)) =
     calls w @ [(if platform ctx = P_win32 then DownloadZip else DownloadTarGZ)
                  (kuberlrArchiveURL ctx arch)
                  (path_join rt [binDir ctx, exeName ctx (js ''kuberlr'')])
                  (kuberlrOptions ctx arch d)]"
  by (simp add: kuberlrDownload_def downloadZip_def downloadTarGZ_def andThen_def logCall_def
      onFiles_def split: prod.splits)

lemma kuberlrArchiveURL_amd64:
  "kuberlrArchiveURL ctx (js ''amd64'') =
     js ''https://github.com/flavio/kuberlr/releases/download/v0.4.2/kuberlr_0.4.2_'' @
     KubePlatform_str (kubePlatform ctx) @ js ''_amd64'' @
     (if kubePlatform ctx = K_windows then js ''.zip'' else js ''.tar.gz'')"
  by (cases "kubePlatform ctx")
     (simp_all add: kuberlrArchiveURL_def kuberlrBaseURL_def kuberlrPlatformDir_def js_def
       startsWith_def)

lemma kuberlr_requests_amd64:
  "list_all (asClaimed l rt ctx) (newCalls w (downloadKuberlrAndKubectl l rt ctx w))
   \<and> (\<forall>manifest d. lib_getResource l kuberlrChecksumsURL = Inr manifest
         \<and> matching manifest (kuberlrPlatformDir ctx (js ''amd64'')) = [d] \<longrightarrow>
         take 2 (newCalls w (downloadKuberlrAndKubectl l rt ctx w)) =
           [GetResource kuberlrChecksumsURL,
            (if platform ctx = P_win32 then DownloadZip else DownloadTarGZ)
              (kuberlrArchiveURL ctx (js ''amd64''))
              (path_join rt [binDir ctx, exeName ctx (js ''kuberlr'')])
              (kuberlrOptions ctx (js ''amd64'') d)])
   \<and> kuberlrArchiveURL ctx (js ''amd64'') =
       js ''https://github.com/flavio/kuberlr/releases/download/v0.4.2/kuberlr_0.4.2_'' @
       KubePlatform_str (kubePlatform ctx) @ js ''_amd64'' @
       (if kubePlatform ctx = K_windows then js ''.zip'' else js ''.tar.gz'')
   \<and> (truthy (getenv rt ''M1'') \<longrightarrow>
        kubectlURL rt ctx stableTxt =
          js ''https://dl.k8s.io/'' @ trim stableTxt @ js ''/bin/'' @
          KubePlatform_str (kubePlatform ctx) @ js ''/'' @ js ''arm64'' @ js ''/'' @
          exeName ctx (js ''kubectl''))
   \<and> (\<not> truthy (getenv rt ''M1'') \<longrightarrow>
        kubectlURL rt ctx stableTxt =
          js ''https://dl.k8s.io/'' @ trim stableTxt @ js ''/bin/'' @
          KubePlatform_str (kubePlatform ctx) @ js ''/'' @ js ''amd64'' @ js ''/'' @
          exeName ctx (js ''kubectl''))"
proof -
  let ?r = "downloadKuberlrAndKubectl l rt ctx w"
  from emitsD [OF emits_downloadKuberlrAndKubectl, of l rt ctx w]
  have all: "list_all (asClaimed l rt ctx) (newCalls w ?r)"
    by (auto simp: newCalls_def)
  have two: "take 2 (newCalls w ?r) =
           [GetResource kuberlrChecksumsURL,
            (if platform ctx = P_win32 then DownloadZip else DownloadTarGZ)
              (kuberlrArchiveURL ctx (js ''amd64''))
              (path_join rt [binDir ctx, exeName ctx (js ''kuberlr'')])
              (kuberlrOptions ctx (js ''amd64'') d)]"
    if g: "lib_getResource l kuberlrChecksumsURL = Inr manifest"
      and m: "matching manifest (kuberlrPlatformDir ctx (js ''amd64'')) = [d]" for manifest d
  proof -
    from kuberlrAndKubectl_extends [of l rt ctx w] obtain ds where
      "calls (snd ?r) = calls (snd (downloadKuberlr l rt ctx (js ''amd64'') w)) @ ds"
      by blast
    then have "calls (snd ?r) =
        calls w @ [GetResource kuberlrChecksumsURL,
            (if platform ctx = P_win32 then DownloadZip else DownloadTarGZ)
              (kuberlrArchiveURL ctx (js ''amd64''))
              (path_join rt [binDir ctx, exeName ctx (js ''kuberlr'')])
              (kuberlrOptions ctx (js ''amd64'') d)] @ ds"
      by (simp add: downloadKuberlr_cases [OF g] m kuberlrDownload_calls_exact)
    then show ?thesis
      by (simp add: newCalls_def)
  qed
  have url: "kuberlrArchiveURL ctx (js ''amd64'') =
       js ''https://github.com/flavio/kuberlr/releases/download/v0.4.2/kuberlr_0.4.2_'' @
       KubePlatform_str (kubePlatform ctx) @ js ''_amd64'' @
       (if kubePlatform ctx = K_windows then js ''.zip'' else js ''.tar.gz'')"
    by (rule kuberlrArchiveURL_amd64)
  from all two url show ?thesis
    by (simp add: kubectlURL_def)
qed

lemma kuberlrAndKubectl_unfold:
  "downloadKuberlrAndKubectl l rt ctx =
     andThen (downloadKuberlr l rt ctx (js ''amd64'')) (\<lambda>kuberlrPath.
       andThen (bindKubectlToKuberlr rt kuberlrPath (kubectlBinPath rt ctx)) (\<lambda>_.
         if Platform_str (platform ctx) = os_platform rt
         then andThen (getResource l stableURL) (\<lambda>stableTxt.
                andThen (getResource l (kubectlURL rt ctx stableTxt @ js ''.sha256''))
                  (\<lambda>kubectlSHA.
                     andThen
                       (findHome rt (startsWith (Platform_str (platform ctx)) (js ''win'')))
                       (\<lambda>homeDir.
                          download l (kubectlURL rt ctx stableTxt)
                            (managedKubectlPath rt ctx stableTxt homeDir)
                            (noOptions\<lparr>expectedChecksum := Some kubectlSHA\<rparr>))))
         else ret ()))"
  unfolding downloadKuberlrAndKubectl_def Let_def kubectlBinPath_def kubectlURL_def
    managedKubectlPath_def stableURL_def
  by simp

lemma kuberlrAndKubectl_run:
  assumes k: "downloadKuberlr l rt ctx (js ''amd64'') w = (Inr kp, w1)"
    and b: "bindKubectlToKuberlr rt kp (kubectlBinPath rt ctx) w1 = (Inr (), w2)"
    and p: "Platform_str (platform ctx) = os_platform rt"
    and s: "lib_getResource l stableURL = Inr s"
    and sha: "lib_getResource l (kubectlURL rt ctx s @ js ''.sha256'') = Inr sha"
    and h: "fst (findHome rt (startsWith (Platform_str (platform ctx)) (js ''win'')) w2) = Inr h"
  shows "downloadKuberlrAndKubectl l rt ctx w =
     download l (kubectlURL rt ctx s) (managedKubectlPath rt ctx s h)
       (noOptions\<lparr>expectedChecksum := Some sha\<rparr>)
       (w2\<lparr>calls := calls w2 @ [GetResource stableURL,
                                 GetResource (kubectlURL rt ctx s @ js ''.sha256'')]\<rparr>)"
proof -
  let ?w3 = "w2\<lparr>calls := calls w2 @ [GetResource stableURL,
                                 GetResource (kubectlURL rt ctx s @ js ''.sha256'')]\<rparr>"
  have fh: "findHome rt (startsWith (Platform_str (platform ctx)) (js ''win'')) ?w3 = (Inr h, ?w3)"
    using h findHome_state [of rt "startsWith (Platform_str (platform ctx)) (js ''win'')" ?w3]
      findHome_calls_irrelevant [where rt = rt and w = w2
        and onWindows = "startsWith (Platform_str (platform ctx)) (js ''win'')"
        and cs = "calls w2 @ [GetResource stableURL,
                                 GetResource (kubectlURL rt ctx s @ js ''.sha256'')]"]
    by (metis prod.collapse)
  show ?thesis
    unfolding kuberlrAndKubectl_unfold
    by (simp add: andThen_def k b p getResource_run s sha fh [unfolded p])
qed

lemma kuberlrAndKubectl_run_calls:
  assumes k: "downloadKuberlr l rt ctx (js ''amd64'') w = (Inr kp, w1)"
    and b: "bindKubectlToKuberlr rt kp (kubectlBinPath rt ctx) w1 = (Inr (), w2)"
    and p: "Platform_str (platform ctx) = os_platform rt"
    and s: "lib_getResource l stableURL = Inr s"
    and sha: "lib_getResource l (kubectlURL rt ctx s @ js ''.sha256'') = Inr sha"
    and h: "fst (findHome rt (startsWith (Platform_str (platform ctx)) (js ''win'')) w2) = Inr h"
  shows "newCalls w (downloadKuberlrAndKubectl l rt ctx w) =
     newCalls w (downloadKuberlr l rt ctx (js ''amd64'') w) @
     [GetResource stableURL, GetResource (kubectlURL rt ctx s @ js ''.sha256''),
      Download (kubectlURL rt ctx s) (managedKubectlPath rt ctx s h)
        (noOptions\<lparr>expectedChecksum := Some sha\<rparr>)]"
proof -
  from emitsD [OF emits_downloadKuberlr [of l rt ctx l rt], of w] obtain cs where
    cs: "calls (snd (downloadKuberlr l rt ctx (js ''amd64'') w)) = calls w @ cs"
    by blast
  have nc: "newCalls w (downloadKuberlr l rt ctx (js ''amd64'') w) = cs"
    by (simp add: newCalls_def cs)
  have c1: "calls w1 = calls w @ cs"
    using cs k by simp
  have c2: "calls w2 = calls w1"
    using bind_calls [of rt kp "kubectlBinPath rt ctx" w1] b by simp
  have "newCalls w (downloadKuberlrAndKubectl l rt ctx w) =
     cs @ [GetResource stableURL, GetResource (kubectlURL rt ctx s @ js ''.sha256''),
      Download (kubectlURL rt ctx s) (managedKubectlPath rt ctx s h)
        (noOptions\<lparr>expectedChecksum := Some sha\<rparr>)]"
    by (simp add: kuberlrAndKubectl_run [OF k b p s sha h] download_run newCalls_def c1 c2)
  then show ?thesis
    by (simp only: nc)
qed

lemma kuberlrAndKubectl_success:
  assumes ok: "fst (downloadKuberlrAndKubectl l rt ctx w) = Inr ()"
    and p: "Platform_str (platform ctx) = os_platform rt"
  shows "\<exists>kp w1 w2 s sha h.
      downloadKuberlr l rt ctx (js ''amd64'') w = (Inr kp, w1)
      \<and> bindKubectlToKuberlr rt kp (kubectlBinPath rt ctx) w1 = (Inr (), w2)
      \<and> lib_getResource l stableURL = Inr s
      \<and> lib_getResource l (kubectlURL rt ctx s @ js ''.sha256'') = Inr sha
      \<and> fst (findHome rt (startsWith (Platform_str (platform ctx)) (js ''win'')) w2) = Inr h"
proof -
  obtain r1 w1 where k: "downloadKuberlr l rt ctx (js ''amd64'') w = (r1, w1)"
    by (cases "downloadKuberlr l rt ctx (js ''amd64'') w")
  from ok k obtain kp where r1: "r1 = Inr kp"
    unfolding kuberlrAndKubectl_unfold by (cases r1) (simp_all add: andThen_def)
  obtain rb w2 where b: "bindKubectlToKuberlr rt kp (kubectlBinPath rt ctx) w1 = (rb, w2)"
    by (cases "bindKubectlToKuberlr rt kp (kubectlBinPath rt ctx) w1")
  from ok k r1 b have rb: "rb = Inr ()"
    unfolding kuberlrAndKubectl_unfold by (cases rb) (simp_all add: andThen_def)
  from ok k r1 b rb p obtain s where s: "lib_getResource l stableURL = Inr s"
    unfolding kuberlrAndKubectl_unfold
    by (cases "lib_getResource l stableURL") (simp_all add: andThen_def getResource_run)
  from ok k r1 b rb p s obtain sha where
    sha: "lib_getResource l (kubectlURL rt ctx s @ js ''.sha256'') = Inr sha"
    unfolding kuberlrAndKubectl_unfold
    by (cases "lib_getResource l (kubectlURL rt ctx s @ js ''.sha256'')")
       (simp_all add: andThen_def getResource_run)
  let ?b = "startsWith (Platform_str (platform ctx)) (js ''win'')"
  let ?w3 = "w2\<lparr>calls := calls w2 @ [GetResource stableURL,
                                 GetResource (kubectlURL rt ctx s @ js ''.sha256'')]\<rparr>"
  obtain rh where st: "findHome rt ?b ?w3 = (rh, ?w3)"
    using findHome_state [of rt ?b ?w3] by (cases "findHome rt ?b ?w3") simp
  from ok k r1 b rb p s sha obtain h where "rh = Inr h"
    unfolding kuberlrAndKubectl_unfold
    by (cases rh) (simp_all add: andThen_def getResource_run st [unfolded p])
  with st have "fst (findHome rt ?b ?w3) = Inr h"
    by simp
  then have h: "fst (findHome rt ?b w2) = Inr h"
    by (simp add: findHome_calls_irrelevant)
  from k r1 b rb s sha h show ?thesis
    by blast
qed

lemma mac_kubectlURL:
  "kubectlURL mac_host darwin_context (js ''v1.24.3'' @ [0x0A]) =
     js ''https://dl.k8s.io/v1.24.3/bin/darwin/arm64/kubectl''"
  using mac_M1
  by (simp add: kubectlURL_def trim_def isWs_def exeName_def darwin_context_def startsWith_def
      js_def)

lemma mac_kuberlrArchiveURL:
  "kuberlrArchiveURL darwin_context (js ''amd64'') =
     js ''https://github.com/flavio/kuberlr/releases/download/v0.4.2/kuberlr_0.4.2_darwin_amd64.tar.gz''"
  by (simp add: kuberlrArchiveURL_def kuberlrBaseURL_def kuberlrPlatformDir_def
      darwin_context_def startsWith_def js_def)

lemma mac_paths:
  "path_join mac_host [binDir darwin_context, exeName darwin_context (js ''kuberlr'')] =
     js ''/work/resources/darwin/bin/kuberlr''"
  "kubectlBinPath mac_host darwin_context = js ''/work/resources/darwin/bin/kubectl''"
  "managedKubectlPath mac_host darwin_context (js ''v1.24.3'' @ [0x0A]) (js ''/Users/me'') =
     js ''/Users/me/.kuberlr/darwin-arm64/kubectl1.24.3''"
  using mac_M1
  by (simp_all add: kubectlBinPath_def managedKubectlPath_def mac_host_def exeName_def
      darwin_context_def startsWith_def trim_def isWs_def js_def)

lemma release_lib_answers:
  "lib_getResource release_lib kuberlrChecksumsURL = Inr kuberlr_manifest"
  "lib_getResource release_lib stableURL = Inr (js ''v1.24.3'' @ [0x0A])"
  "lib_getResource release_lib (js ''https://dl.k8s.io/v1.24.3/bin/darwin/arm64/kubectl'' @
      js ''.sha256'') = Inr (js ''5e1f'')"
  by (simp_all add: release_lib_def kuberlrChecksumsURL_def kuberlrBaseURL_def stableURL_def
      js_def)

lemma matching_kuberlr_manifest:
  "matching kuberlr_manifest (kuberlrPlatformDir darwin_context (js ''amd64'')) =
       [kuberlr_manifest]"
  by (simp add: matching_def kuberlr_manifest_def kuberlrPlatformDir_def darwin_context_def
        js_def isLF_def isCR_def startsWith_def)

lemma mac_kuberlr_step:
  "downloadKuberlr release_lib mac_host darwin_context (js ''amd64'') home_present =
     (Inr (js ''/work/resources/darwin/bin/kuberlr''),
      \<lparr>files = [js ''/Users/me'' \<mapsto> Dir, js ''/work/resources/darwin/bin/kuberlr'' \<mapsto> File],
       calls = [GetResource kuberlrChecksumsURL,
                DownloadTarGZ
                  (js ''https://github.com/flavio/kuberlr/releases/download/v0.4.2/kuberlr_0.4.2_darwin_amd64.tar.gz'')
                  (js ''/work/resources/darwin/bin/kuberlr'')
                  (kuberlrOptions darwin_context (js ''amd64'') kuberlr_manifest)]\<rparr>)"
proof -
  have p: "platform darwin_context \<noteq> P_win32"
    by (simp add: darwin_context_def)
  have t: "lib_downloadTarGZ release_lib = (\<lambda>url dest opts fs. (Inr dest, fs(dest \<mapsto> File)))"
    by (simp add: release_lib_def)
  show ?thesis
    by (simp add: downloadKuberlr_cases [OF release_lib_answers(1)] matching_kuberlr_manifest
        kuberlrDownload_def p downloadTarGZ_def andThen_def logCall_def onFiles_def t
        mac_kuberlrArchiveURL mac_paths(1) home_present_def world_of_def)
qed

lemma mac_bind_step:
  "bindKubectlToKuberlr mac_host (js ''/work/resources/darwin/bin/kuberlr'')
     (kubectlBinPath mac_host darwin_context)
     \<lparr>files = [js ''/Users/me'' \<mapsto> Dir, js ''/work/resources/darwin/bin/kuberlr'' \<mapsto> File],
      calls = cs\<rparr> =
   (Inr (),
    \<lparr>files = [js ''/Users/me'' \<mapsto> Dir, js ''/work/resources/darwin/bin/kuberlr'' \<mapsto> File,
              js ''/work/resources/darwin/bin/kubectl'' \<mapsto> Symlink (js ''kuberlr'')],
     calls = cs\<rparr>)"
proof -
  have m: "\<not> startsWith (os_platform mac_host) (js ''win'')"
    by (simp add: mac_host_def startsWith_def js_def)
  have n: "js ''/work/resources/darwin/bin/kubectl'' \<noteq> js ''/work/resources/darwin/bin/kuberlr''"
    "js ''/work/resources/darwin/bin/kubectl'' \<noteq> js ''/Users/me''"
    by (simp_all add: js_def)
  show ?thesis
    using n by (simp add: bind_absent [OF m] mac_paths(2))
qed

lemma mac_findHome_step:
  "fst (findHome mac_host (startsWith (Platform_str (platform darwin_context)) (js ''win''))
     \<lparr>files = [js ''/Users/me'' \<mapsto> Dir, js ''/work/resources/darwin/bin/kuberlr'' \<mapsto> File,
              js ''/work/resources/darwin/bin/kubectl'' \<mapsto> Symlink (js ''kuberlr'')],
      calls = cs\<rparr>) = Inr (js ''/Users/me'')"
proof -
  have h: "os_homedir mac_host = Inr (js ''/Users/me'')"
    by (simp add: mac_host_def)
  have a: "fs_access mac_host = entryPresent"
    by (simp add: mac_host_def)
  have n: "js ''/work/resources/darwin/bin/kubectl'' \<noteq> js ''/Users/me''"
    "js ''/work/resources/darwin/bin/kuberlr'' \<noteq> js ''/Users/me''" "js ''/Users/me'' \<noteq> []"
    by (simp_all add: js_def)
  show ?thesis
    using n by (simp add: findHome_find [OF h] homeCandidates_def usable_def a entryPresent_def
        truthy_def)
qed

lemma mac_platform: "Platform_str (platform darwin_context) = os_platform mac_host"
  by (simp add: darwin_context_def mac_host_def)

lemma kubectl_issued:
  "(\<forall>kp w1 w2 s sha h.
       downloadKuberlr l rt ctx (js ''amd64'') w = (Inr kp, w1)
       \<and> bindKubectlToKuberlr rt kp (kubectlBinPath rt ctx) w1 = (Inr (), w2)
       \<and> Platform_str (platform ctx) = os_platform rt
       \<and> lib_getResource l stableURL = Inr s
       \<and> lib_getResource l (kubectlURL rt ctx s @ js ''.sha256'') = Inr sha
       \<and> fst (findHome rt (startsWith (Platform_str (platform ctx)) (js ''win'')) w2) = Inr h \<longrightarrow>
       downloadKuberlrAndKubectl l rt ctx w =
         download l (kubectlURL rt ctx s) (managedKubectlPath rt ctx s h)
           (noOptions\<lparr>expectedChecksum := Some sha\<rparr>)
           (w2\<lparr>calls := calls w2 @ [GetResource stableURL,
                                     GetResource (kubectlURL rt ctx s @ js ''.sha256'')]\<rparr>)
       \<and> newCalls w (downloadKuberlrAndKubectl l rt ctx w) =
           newCalls w (downloadKuberlr l rt ctx (js ''amd64'') w) @
           [GetResource stableURL, GetResource (kubectlURL rt ctx s @ js ''.sha256''),
            Download (kubectlURL rt ctx s) (managedKubectlPath rt ctx s h)
              (noOptions\<lparr>expectedChecksum := Some sha\<rparr>)])
   \<and> (fst (downloadKuberlrAndKubectl l rt ctx w) = Inr ()
        \<and> Platform_str (platform ctx) = os_platform rt \<longrightarrow>
        (\<exists>s sha h. lib_getResource l stableURL = Inr s
           \<and> newCalls w (downloadKuberlrAndKubectl l rt ctx w) =
               newCalls w (downloadKuberlr l rt ctx (js ''amd64'') w) @
               [GetResource stableURL, GetResource (kubectlURL rt ctx s @ js ''.sha256''),
                Download (kubectlURL rt ctx s) (managedKubectlPath rt ctx s h)
                  (noOptions\<lparr>expectedChecksum := Some sha\<rparr>)]))"
proof -
  have run: "downloadKuberlrAndKubectl l rt ctx w =
         download l (kubectlURL rt ctx s) (managedKubectlPath rt ctx s h)
           (noOptions\<lparr>expectedChecksum := Some sha\<rparr>)
           (w2\<lparr>calls := calls w2 @ [GetResource stableURL,
                                     GetResource (kubectlURL rt ctx s @ js ''.sha256'')]\<rparr>)
       \<and> newCalls w (downloadKuberlrAndKubectl l rt ctx w) =
           newCalls w (downloadKuberlr l rt ctx (js ''amd64'') w) @
           [GetResource stableURL, GetResource (kubectlURL rt ctx s @ js ''.sha256''),
            Download (kubectlURL rt ctx s) (managedKubectlPath rt ctx s h)
              (noOptions\<lparr>expectedChecksum := Some sha\<rparr>)]"
    if "downloadKuberlr l rt ctx (js ''amd64'') w = (Inr kp, w1)"
      "bindKubectlToKuberlr rt kp (kubectlBinPath rt ctx) w1 = (Inr (), w2)"
      "Platform_str (platform ctx) = os_platform rt"
      "lib_getResource l stableURL = Inr s"
      "lib_getResource l (kubectlURL rt ctx s @ js ''.sha256'') = Inr sha"
      "fst (findHome rt (startsWith (Platform_str (platform ctx)) (js ''win'')) w2) = Inr h"
    for kp w1 w2 s sha h
    using kuberlrAndKubectl_run [OF that] kuberlrAndKubectl_run_calls [OF that]
    by (rule conjI)
  have suc: "\<exists>s sha h. lib_getResource l stableURL = Inr s
           \<and> newCalls w (downloadKuberlrAndKubectl l rt ctx w) =
               newCalls w (downloadKuberlr l rt ctx (js ''amd64'') w) @
               [GetResource stableURL, GetResource (kubectlURL rt ctx s @ js ''.sha256''),
                Download (kubectlURL rt ctx s) (managedKubectlPath rt ctx s h)
                  (noOptions\<lparr>expectedChecksum := Some sha\<rparr>)]"
    if ok: "fst (downloadKuberlrAndKubectl l rt ctx w) = Inr ()"
      and p: "Platform_str (platform ctx) = os_platform rt"
  proof -
    from kuberlrAndKubectl_success [OF ok p] obtain kp w1 w2 s sha h where
      st: "downloadKuberlr l rt ctx (js ''amd64'') w = (Inr kp, w1)"
        "bindKubectlToKuberlr rt kp (kubectlBinPath rt ctx) w1 = (Inr (), w2)"
        "lib_getResource l stableURL = Inr s"
        "lib_getResource l (kubectlURL rt ctx s @ js ''.sha256'') = Inr sha"
        "fst (findHome rt (startsWith (Platform_str (platform ctx)) (js ''win'')) w2) = Inr h"
      by blast
    from kuberlrAndKubectl_run_calls [OF st(1) st(2) p st(3) st(4) st(5)] st(3)
    show ?thesis
      by blast
  qed
  from run suc show ?thesis
    by blast
qed

text \<open>
  C9. Whatever the runtime says (architecture, \<^verbatim>\<open>M1\<close>), every archive download that
  \<open>downloadKuberlrAndKubectl\<close> asks for is the \<^verbatim>\<open>amd64\<close> build of kuberlr, and when the
  manifest has one matching line that download is its second call. When the kuberlr
  download and the binding have succeeded on the host's own platform,
  \<^verbatim>\<open>stable.txt\<close> and the checksum have been fetched and the home directory found, the
  function downloads the versioned kubectl, and every run that returns normally on the
  host's own platform has done so as its last call. The address of that download has
  \<^verbatim>\<open>arm64\<close> when \<^verbatim>\<open>M1\<close> is set (and not empty) and \<^verbatim>\<open>amd64\<close> otherwise.
\<close>

theorem kuberlr_always_amd64:
  "(list_all (asClaimed l rt ctx) (newCalls w (downloadKuberlrAndKubectl l rt ctx w))
   \<and> (\<forall>manifest d. lib_getResource l kuberlrChecksumsURL = Inr manifest
         \<and> matching manifest (kuberlrPlatformDir ctx (js ''amd64'')) = [d] \<longrightarrow>
         take 2 (newCalls w (downloadKuberlrAndKubectl l rt ctx w)) =
           [GetResource kuberlrChecksumsURL,
            (if platform ctx = P_win32 then DownloadZip else DownloadTarGZ)
              (kuberlrArchiveURL ctx (js ''amd64''))
              (path_join rt [binDir ctx, exeName ctx (js ''kuberlr'')])
              (kuberlrOptions ctx (js ''amd64'') d)])
   \<and> kuberlrArchiveURL ctx (js ''amd64'') =
       js ''https://github.com/flavio/kuberlr/releases/download/v0.4.2/kuberlr_0.4.2_'' @
       KubePlatform_str (kubePlatform ctx) @ js ''_amd64'' @
       (if kubePlatform ctx = K_windows then js ''.zip'' else js ''.tar.gz'')
   \<and> (truthy (getenv rt ''M1'') \<longrightarrow>
        kubectlURL rt ctx stableTxt =
          js ''https://dl.k8s.io/'' @ trim stableTxt @ js ''/bin/'' @
          KubePlatform_str (kubePlatform ctx) @ js ''/'' @ js ''arm64'' @ js ''/'' @
          exeName ctx (js ''kubectl''))
   \<and> (\<not> truthy (getenv rt ''M1'') \<longrightarrow>
        kubectlURL rt ctx stableTxt =
          js ''https://dl.k8s.io/'' @ trim stableTxt @ js ''/bin/'' @
          KubePlatform_str (kubePlatform ctx) @ js ''/'' @ js ''amd64'' @ js ''/'' @
          exeName ctx (js ''kubectl'')))
   \<and> (\<forall>kp w1 w2 s sha h.
          downloadKuberlr l rt ctx (js ''amd64'') w = (Inr kp, w1)
          \<and> bindKubectlToKuberlr rt kp (kubectlBinPath rt ctx) w1 = (Inr (), w2)
          \<and> Platform_str (platform ctx) = os_platform rt
          \<and> lib_getResource l stableURL = Inr s
          \<and> lib_getResource l (kubectlURL rt ctx s @ js ''.sha256'') = Inr sha
          \<and> fst (findHome rt (startsWith (Platform_str (platform ctx)) (js ''win'')) w2) = Inr h \<longrightarrow>
          downloadKuberlrAndKubectl l rt ctx w =
            download l (kubectlURL rt ctx s) (managedKubectlPath rt ctx s h)
              (noOptions\<lparr>expectedChecksum := Some sha\<rparr>)
              (w2\<lparr>calls := calls w2 @ [GetResource stableURL,
                                        GetResource (kubectlURL rt ctx s @ js ''.sha256'')]\<rparr>)
          \<and> newCalls w (downloadKuberlrAndKubectl l rt ctx w) =
              newCalls w (downloadKuberlr l rt ctx (js ''amd64'') w) @
              [GetResource stableURL, GetResource (kubectlURL rt ctx s @ js ''.sha256''),
               Download (kubectlURL rt ctx s) (managedKubectlPath rt ctx s h)
                 (noOptions\<lparr>expectedChecksum := Some sha\<rparr>)])
   \<and> (fst (downloadKuberlrAndKubectl l rt ctx w) = Inr ()
        \<and> Platform_str (platform ctx) = os_platform rt \<longrightarrow>
        (\<exists>s sha h. lib_getResource l stableURL = Inr s
           \<and> newCalls w (downloadKuberlrAndKubectl l rt ctx w) =
               newCalls w (downloadKuberlr l rt ctx (js ''amd64'') w) @
               [GetResource stableURL, GetResource (kubectlURL rt ctx s @ js ''.sha256''),
                Download (kubectlURL rt ctx s) (managedKubectlPath rt ctx s h)
                  (noOptions\<lparr>expectedChecksum := Some sha\<rparr>)]))"
  using kuberlr_requests_amd64 [of l rt ctx w stableTxt] kubectl_issued [of l rt ctx w]
  by blast

theorem kuberlr_always_amd64_witness:
  "truthy (getenv mac_host ''M1'')
   \<and> Platform_str (platform darwin_context) = os_platform mac_host
   \<and> lib_getResource release_lib stableURL = Inr (js ''v1.24.3'' @ [0x0A])
   \<and> newCalls home_present
        (downloadKuberlrAndKubectl release_lib mac_host darwin_context home_present) =
       [GetResource kuberlrChecksumsURL,
        DownloadTarGZ
          (js ''https://github.com/flavio/kuberlr/releases/download/v0.4.2/kuberlr_0.4.2_darwin_amd64.tar.gz'')
          (js ''/work/resources/darwin/bin/kuberlr'')
          (kuberlrOptions darwin_context (js ''amd64'') kuberlr_manifest),
        GetResource stableURL,
        GetResource (js ''https://dl.k8s.io/v1.24.3/bin/darwin/arm64/kubectl'' @ js ''.sha256''),
        Download (js ''https://dl.k8s.io/v1.24.3/bin/darwin/arm64/kubectl'')
          (js ''/Users/me/.kuberlr/darwin-arm64/kubectl1.24.3'')
          (noOptions\<lparr>expectedChecksum := Some (js ''5e1f'')\<rparr>)]"
proof -
  have nk: "newCalls home_present
      (downloadKuberlr release_lib mac_host darwin_context (js ''amd64'') home_present) =
       [GetResource kuberlrChecksumsURL,
        DownloadTarGZ
          (js ''https://github.com/flavio/kuberlr/releases/download/v0.4.2/kuberlr_0.4.2_darwin_amd64.tar.gz'')
          (js ''/work/resources/darwin/bin/kuberlr'')
          (kuberlrOptions darwin_context (js ''amd64'') kuberlr_manifest)]"
  proof -
    have c: "calls home_present = []"
      by (simp add: home_present_def world_of_def)
    show ?thesis
      by (simp add: mac_kuberlr_step newCalls_def c)
  qed
  have sha: "lib_getResource release_lib
      (kubectlURL mac_host darwin_context (js ''v1.24.3'' @ [0x0A]) @ js ''.sha256'') =
      Inr (js ''5e1f'')"
    by (simp only: mac_kubectlURL release_lib_answers(3))
  from kuberlr_always_amd64 [where l = release_lib and rt = mac_host and ctx = darwin_context
      and w = home_present]
    mac_kuberlr_step mac_bind_step mac_platform release_lib_answers(2) sha mac_findHome_step
  have "newCalls home_present
        (downloadKuberlrAndKubectl release_lib mac_host darwin_context home_present) =
      newCalls home_present
        (downloadKuberlr release_lib mac_host darwin_context (js ''amd64'') home_present) @
      [GetResource stableURL,
       GetResource (kubectlURL mac_host darwin_context (js ''v1.24.3'' @ [0x0A]) @ js ''.sha256''),
       Download (kubectlURL mac_host darwin_context (js ''v1.24.3'' @ [0x0A]))
         (managedKubectlPath mac_host darwin_context (js ''v1.24.3'' @ [0x0A]) (js ''/Users/me''))
         (noOptions\<lparr>expectedChecksum := Some (js ''5e1f'')\<rparr>)]"
    by blast
  then have "newCalls home_present
        (downloadKuberlrAndKubectl release_lib mac_host darwin_context home_present) =
       [GetResource kuberlrChecksumsURL,
        DownloadTarGZ
          (js ''https://github.com/flavio/kuberlr/releases/download/v0.4.2/kuberlr_0.4.2_darwin_amd64.tar.gz'')
          (js ''/work/resources/darwin/bin/kuberlr'')
          (kuberlrOptions darwin_context (js ''amd64'') kuberlr_manifest),
        GetResource stableURL,
        GetResource (js ''https://dl.k8s.io/v1.24.3/bin/darwin/arm64/kubectl'' @ js ''.sha256''),
        Download (js ''https://dl.k8s.io/v1.24.3/bin/darwin/arm64/kubectl'')
          (js ''/Users/me/.kuberlr/darwin-arm64/kubectl1.24.3'')
          (noOptions\<lparr>expectedChecksum := Some (js ''5e1f'')\<rparr>)]"
    by (simp only: nk mac_kubectlURL mac_paths(3) append.simps)
  with mac_M1 mac_platform release_lib_answers(2) show ?thesis
    by blast
qed

subsection \<open>The moproxy init script\<close>

lemma copies_zero_iff: "(copies conf c t = 0) = (redirect_rule conf \<notin> set (t c))"
  by (simp add: copies_def count_list_0_iff)

lemma copies_add_same:
  "copies conf c (add_rule_to_chain conf c t) = max 1 (copies conf c t)"
  using copies_zero_iff [of conf c t]
  by (auto simp: add_rule_to_chain_def copies_def)

lemma copies_add_other:
  "c' \<noteq> c \<Longrightarrow> copies conf c' (add_rule_to_chain conf c t) = copies conf c' t"
  by (simp add: add_rule_to_chain_def copies_def)

lemma remove_step:
  "redirect_rule conf \<in> set (t c) \<Longrightarrow>
   remove_rule_from_chain conf c t =
   remove_rule_from_chain conf c (t(c := remove1 (redirect_rule conf) (t c)))"
  by (subst remove_rule_from_chain.simps) simp

lemma remove_stop:
  "redirect_rule conf \<notin> set (t c) \<Longrightarrow> remove_rule_from_chain conf c t = t"
  by (subst remove_rule_from_chain.simps) simp

lemma copies_remove_same:
  "copies conf c (remove_rule_from_chain conf c t) = 0"
proof (induction conf c t rule: remove_rule_from_chain.induct)
  case (1 conf c t)
  show ?case
  proof (cases "redirect_rule conf \<in> set (t c)")
    case True
    then have chk: "fst (iptables_cmd conf check c t) = 0"
      and del: "snd (iptables_cmd conf delete c t) = t(c := remove1 (redirect_rule conf) (t c))"
      by simp_all
    from "1.IH" [OF chk] show ?thesis
      by (simp only: del remove_step [of conf t c, OF True])
  next
    case False
    then show ?thesis
      by (simp add: remove_stop copies_zero_iff)
  qed
qed

lemma remove_other:
  "c' \<noteq> c \<Longrightarrow> remove_rule_from_chain conf c t c' = t c'"
proof (induction conf c t rule: remove_rule_from_chain.induct)
  case (1 conf c t)
  show ?case
  proof (cases "redirect_rule conf \<in> set (t c)")
    case True
    then have chk: "fst (iptables_cmd conf check c t) = 0"
      and del: "snd (iptables_cmd conf delete c t) = t(c := remove1 (redirect_rule conf) (t c))"
      by simp_all
    have "remove_rule_from_chain conf c t c' =
          remove_rule_from_chain conf c (snd (iptables_cmd conf delete c t)) c'"
      by (simp only: del remove_step [of conf t c, OF True])
    also have "\<dots> = snd (iptables_cmd conf delete c t) c'"
      by (rule "1.IH" [OF chk "1.prems"])
    also have "\<dots> = t c'"
      using "1.prems" by (simp add: del)
    finally show ?thesis .
  next
    case False
    then show ?thesis
      by (simp add: remove_stop)
  qed
qed

lemma copies_enable:
  "c = ''OUTPUT'' \<or> c = ''PREROUTING'' \<Longrightarrow> copies conf c (enable conf t) = max 1 (copies conf c t)"
  by (auto simp: enable_def copies_add_same copies_add_other)

lemma copies_enable_pow:
  "c = ''OUTPUT'' \<or> c = ''PREROUTING'' \<Longrightarrow> 0 < n \<Longrightarrow> copies conf c ((enable conf ^^ n) t) = max 1 (copies conf c t)"
proof (induction n)
  case 0 then show ?case by simp
next
  case (Suc n)
  show ?case
  proof (cases n)
    case 0 then show ?thesis using Suc.prems by (simp add: copies_enable)
  next
    case (Suc m)
    then show ?thesis using Suc.IH Suc.prems by (simp add: copies_enable)
  qed
qed

lemma copies_remove_other:
  "c' \<noteq> c \<Longrightarrow> copies conf c' (remove_rule_from_chain conf c t) = copies conf c' t"
  by (simp add: copies_def remove_other)

lemma copies_disable:
  "c = ''OUTPUT'' \<or> c = ''PREROUTING'' \<Longrightarrow> copies conf c (disable conf t) = 0"
  by (auto simp: disable_def copies_remove_same copies_remove_other)


text \<open>
  C10, as the script has it. \<open>add_rule_to_chain\<close> appends the rule only when the chain
  does not hold it. So \<open>enable\<close>, run any number of times (at least once), never adds
  a second copy: a chain of \<open>enable\<close> that held no copy or one copy holds exactly one
  afterwards, and a chain that already held several keeps them all. \<open>disable\<close> deletes
  until the check fails: afterwards both chains hold no copy, however many there were.
\<close>

theorem enable_disable_copies:
  assumes "c = ''OUTPUT'' \<or> c = ''PREROUTING''"
  shows "add_rule_to_chain conf c t =
           (if redirect_rule conf \<in> set (t c) then t else t(c := t c @ [redirect_rule conf]))
    \<and> (0 < n \<longrightarrow> copies conf c ((enable conf ^^ n) t) = max 1 (copies conf c t))
    \<and> (0 < n \<and> copies conf c t \<le> 1 \<longrightarrow> copies conf c ((enable conf ^^ n) t) = 1)
    \<and> copies conf c (disable conf t) = 0"
proof -
  have add: "add_rule_to_chain conf c t =
          (if redirect_rule conf \<in> set (t c) then t else t(c := t c @ [redirect_rule conf]))"
    by (simp add: add_rule_to_chain_def)
  have pow: "copies conf c ((enable conf ^^ n) t) = max 1 (copies conf c t)" if "0 < n"
    using assms that by (rule copies_enable_pow)
  have one: "copies conf c ((enable conf ^^ n) t) = 1" if "0 < n" "copies conf c t \<le> 1"
    using pow [OF that(1)] that(2) by simp
  have dis: "copies conf c (disable conf t) = 0"
    using assms by (rule copies_disable)
  from add pow one dis show ?thesis
    by blast
qed

theorem enable_disable_copies_witness:
  "copies default_conf ''OUTPUT'' ((enable default_conf ^^ 2) empty_table) = 1
   \<and> copies default_conf ''PREROUTING'' ((enable default_conf ^^ 2) empty_table) = 1
   \<and> copies default_conf ''OUTPUT'' ((enable default_conf ^^ 2) duplicate_table) = 2
   \<and> copies default_conf ''OUTPUT'' (disable default_conf duplicate_table) = 0"
proof -
  have e: "copies default_conf c empty_table = 0" for c
    by (simp add: copies_def empty_table_def)
  have d: "copies default_conf ''OUTPUT'' duplicate_table = 2"
    by (simp add: copies_def duplicate_table_def)
  show ?thesis
    using enable_disable_copies [of "''OUTPUT''" default_conf empty_table 2]
      enable_disable_copies [of "''PREROUTING''" default_conf empty_table 2]
      enable_disable_copies [of "''OUTPUT''" default_conf duplicate_table 2]
    by (simp add: e d)
qed

text \<open>
  C10 as the claim words it fails where the chain already holds duplicates: two calls of
  \<open>enable\<close> on a table whose \<^verbatim>\<open>OUTPUT\<close> chain holds the rule twice leave two
  copies there, not one.
\<close>

theorem enable_keeps_duplicates:
  "copies default_conf ''OUTPUT'' (enable default_conf (enable default_conf duplicate_table)) = 2"
  by (simp add: enable_def add_rule_to_chain_def copies_def duplicate_table_def empty_table_def)

end
